theory Spec2Isabelle
  imports Main "HOL-Library.Char_ord" "HOL-Library.List_Lexorder" "HOL-Library.AList"
begin

section \<open>JavaScript values and platform functions\<close>

text \<open>
  The indexer is TypeScript/JavaScript on Node with an SQLite database. Its own functions
  are embedded below one by one, under their source names. The platform functions they
  call are modelled here, each with the behaviour the runtime documents:
  \<^item> a JavaScript string is a \<open>string\<close>, one \<open>char\<close> for each code unit, so that the
    strings of the model are those whose code units are below 256 (the scripts and
    payloads of the protocol are ASCII);
  \<^item> a value returned by \<open>JSON.parse\<close> is a \<open>json\<close>; \<open>JNum n\<close> is the number whose
    value is the integer \<open>n\<close> (numbers with a fractional part are not represented);
  \<^item> \<open>undefined\<close> is \<open>None\<close> of \<open>json option\<close>, an exception is \<open>Inl\<close> of a sum.
\<close>

datatype json =
    JNull
  | JBool bool
  | JNum int
  | JStr string
  | JArr "json list"
  | JObj "(string \<times> json) list"

datatype js_error = SyntaxError | TypeError

text \<open>Property access \<open>v.k\<close> on a non-null value: an own property of an object, and
  \<open>undefined\<close> on every other value (none of the keys read by the indexer is a property
  of a prototype). On \<open>null\<close> the access raises; the callers test for it first.\<close>

fun js_get :: "json \<Rightarrow> string \<Rightarrow> json option" where
  "js_get (JObj kvs) k = map_of kvs k"
| "js_get _ k = None"

text \<open>Truthiness, as \<open>if (v)\<close>, \<open>a && b\<close> and \<open>a || b\<close> test it.\<close>

fun truthy :: "json option \<Rightarrow> bool" where
  "truthy None = False"
| "truthy (Some JNull) = False"
| "truthy (Some (JBool b)) = b"
| "truthy (Some (JNum n)) = (n \<noteq> 0)"
| "truthy (Some (JStr s)) = (s \<noteq> [])"
| "truthy (Some (JArr _)) = True"
| "truthy (Some (JObj _)) = True"

text \<open>String conversion, as a template literal performs it on an interpolated value.
  It raises a TypeError for an object that has an own property \<open>toString\<close>: no value read
  by \<open>JSON.parse\<close> is callable, and \<open>Object.prototype.valueOf\<close> returns the object
  itself. It raises for an array with an element on which it raises, because
  \<open>Array.prototype.join\<close> converts every element other than \<open>null\<close>. On every other
  value, and on \<open>undefined\<close>, it returns a string.\<close>

fun string_conversion_raises :: "json \<Rightarrow> bool" where
  "string_conversion_raises (JObj kvs) = (map_of kvs ''toString'' \<noteq> None)"
| "string_conversion_raises (JArr xs) = list_ex string_conversion_raises xs"
| "string_conversion_raises v = False"

definition template_raises :: "json option \<Rightarrow> bool" where
  "template_raises v = (case v of None \<Rightarrow> False | Some x \<Rightarrow> string_conversion_raises x)"

text \<open>\<open>String.prototype.toUpperCase\<close> on the code units below 256: the letters \<open>a\<close> to
  \<open>z\<close> and the Latin-1 letters \<open>0xE0\<close> to \<open>0xFE\<close> (the division sign \<open>0xF7\<close> apart) move
  down by 32, and the sharp s \<open>0xDF\<close> becomes \<open>SS\<close>. The upper-case forms of the micro
  sign \<open>0xB5\<close> and of \<open>0xFF\<close> are code units above 255, which a \<open>string\<close> cannot hold:
  the two are left as they are.\<close>

definition upper_char :: "char \<Rightarrow> string" where
  "upper_char c =
     (let n = (of_char c :: int) in
      if (97 \<le> n \<and> n \<le> 122) \<or> (224 \<le> n \<and> n \<le> 254 \<and> n \<noteq> 247) then [char_of (n - 32)]
      else if n = 223 then ''SS''
      else [c])"

definition toUpperCase :: "string \<Rightarrow> string" where
  "toUpperCase s = concat (map upper_char s)"

text \<open>Hexadecimal digits, and \<open>Buffer.from(s, 'hex')\<close>: pairs of digits are decoded
  from the left, and decoding stops at the first pair that is not two hex digits (a
  trailing single character is dropped).\<close>

definition unhex :: "char \<Rightarrow> int option" where
  "unhex c =
     (let n = (of_char c :: int) in
      if 48 \<le> n \<and> n \<le> 57 then Some (n - 48)
      else if 97 \<le> n \<and> n \<le> 102 then Some (n - 87)
      else if 65 \<le> n \<and> n \<le> 70 then Some (n - 55)
      else None)"

fun hex_decode :: "string \<Rightarrow> string" where
  "hex_decode (a # b # rest) =
     (case unhex a of
        None \<Rightarrow> []
      | Some x \<Rightarrow>
          (case unhex b of
             None \<Rightarrow> []
           | Some y \<Rightarrow> char_of (16 * x + y) # hex_decode rest))"
| "hex_decode _ = []"

text \<open>\<open>parseInt(s, 16)\<close>: leading white space is skipped, then an optional sign, then
  an optional \<open>0x\<close> or \<open>0X\<close>; the longest run of hex digits that follows is the value, and
  with no digit there the result is \<open>NaN\<close> (\<open>None\<close>).\<close>

definition is_js_space :: "char \<Rightarrow> bool" where
  "is_js_space c = ((of_char c :: int) \<in> {9, 10, 11, 12, 13, 32, 160})"

fun hex_value :: "int \<Rightarrow> string \<Rightarrow> int" where
  "hex_value acc [] = acc"
| "hex_value acc (c # cs) =
     hex_value (16 * acc + (case unhex c of Some d \<Rightarrow> d | None \<Rightarrow> 0)) cs"

definition parseInt16 :: "string \<Rightarrow> int option" where
  "parseInt16 s =
     (let s1 = dropWhile is_js_space s;
          neg = (take 1 s1 = ''-'');
          s2 = (if take 1 s1 = ''-'' \<or> take 1 s1 = ''+'' then drop 1 s1 else s1);
          s3 = (if take 2 s2 = ''0x'' \<or> take 2 s2 = ''0X'' then drop 2 s2 else s2);
          z = takeWhile (\<lambda>c. unhex c \<noteq> None) s3
      in if z = [] then None
         else Some ((if neg then - 1 else 1) * hex_value 0 z))"

text \<open>A JavaScript \<open>number\<close> is a binary64 float. \<open>js_number n\<close> is the number that
  stands for the integer \<open>n\<close> (read from a JSON text, or handed over by the database
  driver as a 64-bit integer): \<open>n\<close> itself below \<open>2 ^ 53\<close>, and above it the nearest
  integer with 53 significant bits, ties to the even one. (The result is an integer
  again, so the model stays within \<open>int\<close>.) \<open>bit_length a\<close> is the number of binary
  digits of \<open>a\<close>.\<close>

function bit_length :: "int \<Rightarrow> nat" where
  "bit_length a = (if a \<le> 0 then 0 else Suc (bit_length (a div 2)))"
  by pat_completeness auto
termination
  by (relation "measure nat") auto

definition js_number :: "int \<Rightarrow> int" where
  "js_number n =
     (let a = \<bar>n\<bar> in
      if a < 2 ^ 53 then n
      else
        (let e = bit_length a - 53;
             q = a div 2 ^ e;
             r = a mod 2 ^ e;
             q' = (if 2 * r > 2 ^ e \<or> (2 * r = 2 ^ e \<and> odd q) then q + 1 else q)
         in sgn n * (q' * 2 ^ e)))"

section \<open>The two payload decoders\<close>

text \<open>
  Both decoders end in \<open>JSON.parse(Buffer.from(hex, 'hex').toString('utf8'))\<close>. The JSON
  parser of the runtime is a parameter \<open>P\<close> of the model: \<open>P bytes\<close> is \<open>None\<close> where
  \<open>JSON.parse\<close> raises a SyntaxError on the decoded text, and the parsed value otherwise.
  Every theorem below holds for every \<open>P\<close>.
\<close>

type_synonym json_parser = "string \<Rightarrow> json option"

text \<open>\<open>parseDRC20Json\<close> of the class \<open>DRC20Indexer\<close>: the body of its \<open>try\<close> block, and
  the method with its \<open>catch\<close>, which turns every exception into \<open>null\<close>.\<close>

definition parseDRC20Json_try :: "json_parser \<Rightarrow> string \<Rightarrow> js_error + json option" where
  "parseDRC20Json_try P opReturnHex =
     (let jsonHex = drop 4 opReturnHex in
      case P (hex_decode jsonHex) of
        None \<Rightarrow> Inl SyntaxError
      | Some JNull \<Rightarrow> Inl TypeError
      | Some parsed \<Rightarrow>
          if js_get parsed ''p'' = Some (JStr ''drc20'')
             \<and> (js_get parsed ''op'' = Some (JStr ''deploy'')
                  \<or> js_get parsed ''op'' = Some (JStr ''mint''))
          then Inr (Some parsed)
          else Inr None)"

definition parseDRC20Json :: "json_parser \<Rightarrow> string \<Rightarrow> json option" where
  "parseDRC20Json P opReturnHex =
     (case parseDRC20Json_try P opReturnHex of Inl e \<Rightarrow> None | Inr r \<Rightarrow> r)"

text \<open>\<open>parseDRC20FromHex\<close> of the scanner script. \<open>strip_push\<close> is its first part:
  the hex that is left to decode, or \<open>None\<close> where the function returns \<open>null\<close> at
  once (a length byte above 76, or no length byte at all).\<close>

definition strip_push :: "string \<Rightarrow> string option" where
  "strip_push opReturnHex =
     (if take 2 opReturnHex = ''6a'' then
        (let dataHex = drop 2 opReturnHex in
         case parseInt16 (take 2 dataHex) of
           None \<Rightarrow> None
         | Some lengthByte \<Rightarrow>
             if lengthByte \<le> 75 then Some (drop 2 dataHex)
             else if lengthByte = 76 then Some (drop 4 dataHex)
             else None)
      else Some opReturnHex)"

definition parseDRC20FromHex_try :: "json_parser \<Rightarrow> string \<Rightarrow> js_error + json option" where
  "parseDRC20FromHex_try P opReturnHex =
     (case strip_push opReturnHex of
        None \<Rightarrow> Inr None
      | Some dataHex \<Rightarrow>
          (case P (hex_decode dataHex) of
             None \<Rightarrow> Inl SyntaxError
           | Some JNull \<Rightarrow> Inl TypeError
           | Some data \<Rightarrow>
               if js_get data ''p'' = Some (JStr ''drc-20'')
                  \<and> truthy (js_get data ''op'') \<and> truthy (js_get data ''tick'')
               then Inr (Some data)
               else Inr None))"

definition parseDRC20FromHex :: "json_parser \<Rightarrow> string \<Rightarrow> json option" where
  "parseDRC20FromHex P opReturnHex =
     (case parseDRC20FromHex_try P opReturnHex of Inl e \<Rightarrow> None | Inr r \<Rightarrow> r)"

section \<open>The database\<close>

text \<open>
  The six tables of \<open>createTables\<close>, each a list of rows in insertion order. An
  \<open>INTEGER PRIMARY KEY AUTOINCREMENT\<close> column is the position of the row in its list,
  and the \<open>CURRENT_TIMESTAMP\<close> columns are left out. A \<open>TEXT\<close> column that may be
  \<open>NULL\<close> is a \<open>string option\<close>, a \<open>BOOLEAN\<close> column a \<open>bool\<close>. The column
  \<open>raw_json\<close> holds the parsed value whose \<open>JSON.stringify\<close> text the code stores.
\<close>

record tokens_row =
  tok_tick :: string
  tok_name :: "string option"
  tok_max_supply :: string
  tok_mint_limit :: string
  tok_deploy_txid :: string
  tok_deploy_block :: int
  tok_deploy_address :: string

record transactions_row =
  tx_txid :: string
  tx_block_height :: int
  tx_block_hash :: string
  tx_operation :: string
  tx_tick :: string
  tx_amount :: "string option"
  tx_from_address :: string
  tx_to_address :: string
  tx_raw_json :: json
  tx_service_fee_amount :: string
  tx_is_blackdoge_tx :: bool
  tx_is_valid :: bool

record site_transactions_row =
  st_txid :: string
  st_tick :: string
  st_amount :: string
  st_operation :: string
  st_user_address :: string
  st_service_fee_paid :: string
  st_source :: string

record balances_row =
  bal_address :: string
  bal_tick :: string
  bal_balance :: string

record verification_stats_row =
  vs_tick :: string
  vs_site_count :: int
  vs_blockchain_count :: int
  vs_is_verified :: bool
  vs_discrepancy_details :: "string option"

record database =
  tokens :: "tokens_row list"
  transactions :: "transactions_row list"
  site_transactions :: "site_transactions_row list"
  balances :: "balances_row list"
  indexer_state :: "(int \<times> string) option"
  verification_stats :: "verification_stats_row list"

definition empty_database :: database where
  "empty_database =
     \<lparr>tokens = [], transactions = [], site_transactions = [], balances = [],
      indexer_state = None, verification_stats = []\<rparr>"

text \<open>Decimal text of a number, as \<open>String(n)\<close> and SQLite's conversion of an integer
  to \<open>TEXT\<close> give it.\<close>

function show_nat :: "int \<Rightarrow> string" where
  "show_nat n =
     (if n < 10 then [char_of (48 + n)]
      else show_nat (n div 10) @ [char_of (48 + n mod 10)])"
  by pat_completeness auto
termination
  by (relation "measure nat") auto

definition show_int :: "int \<Rightarrow> string" where
  "show_int i = (if i < 0 then CHR ''-'' # show_nat (- i) else show_nat i)"

text \<open>The text a bound parameter leaves in a \<open>TEXT\<close> column. The driver binds a string
  as it is, \<open>true\<close> as the integer 1, a number that is an integer of 32 bits as that
  integer and any other number as a double, and every array and every object as the
  text \<open>[object Object]\<close>. The column then holds the decimal text of an integer, and for
  a double the text that SQLite's \<open>%!.15g\<close> prints: 15 significant digits (the last
  rounded half up), no trailing zeros but one digit at least after the point, in
  exponent form from \<open>10 ^ 15\<close> on. (Only truthy values reach a column, \<open>v || '0'\<close>:
  \<open>null\<close> and \<open>false\<close> are never bound.)\<close>

definition drop_trailing_zeros :: "string \<Rightarrow> string" where
  "drop_trailing_zeros ds = rev (dropWhile (\<lambda>c. c = CHR ''0'') (rev ds))"

definition sql_real_text :: "int \<Rightarrow> string" where
  "sql_real_text n =
     (let a = \<bar>n\<bar>;
          sign = (if n < 0 then ''-'' else []);
          k = length (show_nat a)
      in if k \<le> 15 then sign @ show_nat a @ ''.0''
         else
           (let scale = 10 ^ (k - 15);
                m = (a + scale div 2) div scale;
                e = (if m = 10 ^ 15 then int k else int k - 1);
                ds = show_nat (if m = 10 ^ 15 then 10 ^ 14 else m);
                frac = drop_trailing_zeros (drop 1 ds)
            in sign @ take 1 ds @ ''.'' @ (if frac = [] then ''0'' else frac)
               @ ''e+'' @ (if e < 10 then ''0'' else []) @ show_nat e))"

definition sql_text :: "json \<Rightarrow> string" where
  "sql_text v =
     (case v of
        JStr s \<Rightarrow> s
      | JBool b \<Rightarrow> (if b then ''1'' else ''0'')
      | JNum n \<Rightarrow>
          (if - (2 ^ 31) \<le> n \<and> n < 2 ^ 31 then show_int n
           else sql_real_text (js_number n))
      | JNull \<Rightarrow> []
      | JArr xs \<Rightarrow> ''[object Object]''
      | JObj kvs \<Rightarrow> ''[object Object]'')"

text \<open>\<open>v || '0'\<close> for a field \<open>v\<close> of the payload.\<close>

definition or_zero :: "json option \<Rightarrow> json" where
  "or_zero v = (case v of None \<Rightarrow> JStr ''0'' | Some x \<Rightarrow> if truthy v then x else JStr ''0'')"

text \<open>\<open>INSERT OR IGNORE\<close>: the row is skipped when it breaks a \<open>PRIMARY KEY\<close> or
  \<open>UNIQUE\<close> constraint. \<open>tokens\<close> has \<open>tick\<close> as its primary key and \<open>deploy_txid\<close>
  unique; \<open>transactions\<close> has \<open>txid\<close> unique.\<close>

definition insert_or_ignore_tokens :: "tokens_row \<Rightarrow> database \<Rightarrow> database" where
  "insert_or_ignore_tokens r db =
     (if tok_tick r \<in> set (map tok_tick (tokens db))
         \<or> tok_deploy_txid r \<in> set (map tok_deploy_txid (tokens db))
      then db
      else db\<lparr>tokens := tokens db @ [r]\<rparr>)"

definition insert_or_ignore_transactions :: "transactions_row \<Rightarrow> database \<Rightarrow> database" where
  "insert_or_ignore_transactions r db =
     (if tx_txid r \<in> set (map tx_txid (transactions db))
      then db
      else db\<lparr>transactions := transactions db @ [r]\<rparr>)"

section \<open>The scanner script\<close>

text \<open>\<open>isTokenDeployed\<close>. \<open>tick.toUpperCase()\<close> raises inside the \<open>try\<close> when \<open>tick\<close>
  is not a string; the \<open>catch\<close> then logs a template literal that interpolates \<open>tick\<close>
  and returns \<open>false\<close>. Where that interpolation raises in its turn, the exception leaves
  the function. \<open>isTokenDeployed_promise\<close> is the promise that the function returns,
  fulfilled with a boolean (\<open>Inr\<close>) or rejected (\<open>Inl\<close>); \<open>isTokenDeployed\<close> tells whether
  \<open>await isTokenDeployed(tick)\<close> is \<open>true\<close>.\<close>

definition isTokenDeployed_promise :: "database \<Rightarrow> json option \<Rightarrow> js_error + bool" where
  "isTokenDeployed_promise db tick =
     (case tick of
        Some (JStr t) \<Rightarrow> Inr (toUpperCase t \<in> set (map tok_tick (tokens db)))
      | _ \<Rightarrow> if template_raises tick then Inl TypeError else Inr False)"

definition isTokenDeployed :: "database \<Rightarrow> json option \<Rightarrow> bool" where
  "isTokenDeployed db tick = (isTokenDeployed_promise db tick = Inr True)"

text \<open>\<open>saveTransaction\<close> returns \<open>true\<close> after its \<open>if\<close>/\<open>else if\<close>, and \<open>false\<close> from
  its \<open>catch\<close>, which three exceptions reach: \<open>drc20Data.tick.toUpperCase()\<close> raises for
  a deploy whose \<open>tick\<close> is not a string, before anything is written; the promise of
  \<open>isTokenDeployed\<close> is rejected, before anything is written; and the log line that
  follows the insertion of a mint raises when \<open>amt\<close> cannot be converted to a string,
  after the row has been written. (The log line of a deploy interpolates the tick, a
  string at that point.)\<close>

definition saveTransaction ::
  "database \<Rightarrow> int \<Rightarrow> string \<Rightarrow> json \<Rightarrow> string \<Rightarrow> database \<times> bool" where
  "saveTransaction db blockHeight txid drc20Data opReturnHex =
     (if drc20Data = JNull then (db, False)
      else if js_get drc20Data ''op'' = Some (JStr ''deploy'') then
        (case js_get drc20Data ''tick'' of
           Some (JStr t) \<Rightarrow>
             (insert_or_ignore_tokens
                \<lparr>tok_tick = toUpperCase t,
                 tok_name = None,
                 tok_max_supply = sql_text (or_zero (js_get drc20Data ''max'')),
                 tok_mint_limit = sql_text (or_zero (js_get drc20Data ''lim'')),
                 tok_deploy_txid = txid,
                 tok_deploy_block = blockHeight,
                 tok_deploy_address = []\<rparr> db, True)
         | _ \<Rightarrow> (db, False))
      else if js_get drc20Data ''op'' = Some (JStr ''mint'') then
        (case isTokenDeployed_promise db (js_get drc20Data ''tick'') of
           Inl e \<Rightarrow> (db, False)
         | Inr deployed \<Rightarrow>
             if deployed then
               (case js_get drc20Data ''tick'' of
                  Some (JStr t) \<Rightarrow>
                    (insert_or_ignore_transactions
                       \<lparr>tx_txid = txid,
                        tx_block_height = blockHeight,
                        tx_block_hash = [],
                        tx_operation = ''mint'',
                        tx_tick = toUpperCase t,
                        tx_amount = Some (sql_text (or_zero (js_get drc20Data ''amt''))),
                        tx_from_address = [],
                        tx_to_address = [],
                        tx_raw_json = drc20Data,
                        tx_service_fee_amount = ''0'',
                        tx_is_blackdoge_tx = False,
                        tx_is_valid = True\<rparr> db,
                     if template_raises (js_get drc20Data ''amt'') then False else True)
                | _ \<Rightarrow> (db, False))
             else (db, True))
      else (db, True))"

text \<open>\<open>getLastProcessedBlock\<close> and \<open>updateLastProcessedBlock\<close> of the script: the
  checkpoint row of \<open>indexer_state\<close>, written with an empty hash.\<close>

definition getLastProcessedBlock :: "database \<Rightarrow> int option" where
  "getLastProcessedBlock db = map_option fst (indexer_state db)"

definition updateLastProcessedBlock :: "int \<Rightarrow> database \<Rightarrow> database" where
  "updateLastProcessedBlock height db = db\<lparr>indexer_state := Some (height, [])\<rparr>"

text \<open>The chain as \<open>dogecoin-cli\<close> serves it: \<open>getblockhash\<close> and \<open>getblock hash 2\<close>
  give the block of a height, or fail (\<open>None\<close>).\<close>

record script_pub_key =
  spk_type :: string
  spk_hex :: string

record tx_out =
  scriptPubKey :: "script_pub_key option"

record chain_tx =
  txid :: string
  vout :: "tx_out list"

record block =
  hash :: string
  previousblockhash :: string
  tx :: "chain_tx list"

type_synonym chain = "int \<Rightarrow> block option"

record found_tx =
  f_blockHeight :: int
  f_txid :: string
  f_data :: json
  f_hex :: string

type_synonym scan_state = "database \<times> found_tx list"

text \<open>\<open>scanBlockRange\<close>. The body of the loop over the outputs of a transaction
  pushes the operation on \<open>drc20Transactions\<close>, calls \<open>saveTransaction\<close> and logs a line
  that interpolates \<open>op\<close>, \<open>tick\<close> and \<open>amt || ''\<close>; \<open>log_raises\<close> tells whether that
  line raises, which happens after the other two. An exception leaves both inner loops
  and reaches the \<open>catch\<close> of the loop over heights, which logs it and goes on with the
  next height, as it does after a failed fetch: the rest of the block is not looked at.
  The scanning functions return \<open>True\<close> beside the state when the log line has raised.\<close>

definition log_raises :: "json \<Rightarrow> bool" where
  "log_raises drc20Data =
     (template_raises (js_get drc20Data ''op'')
      \<or> template_raises (js_get drc20Data ''tick'')
      \<or> (truthy (js_get drc20Data ''amt'') \<and> template_raises (js_get drc20Data ''amt'')))"

definition scan_vout ::
  "json_parser \<Rightarrow> int \<Rightarrow> string \<Rightarrow> scan_state \<Rightarrow> tx_out \<Rightarrow> bool \<times> scan_state" where
  "scan_vout P blockHeight tid st v =
     (case scriptPubKey v of
        None \<Rightarrow> (False, st)
      | Some spk \<Rightarrow>
          if spk_type spk = ''nulldata'' \<and> spk_hex spk \<noteq> [] then
            (case parseDRC20FromHex P (spk_hex spk) of
               None \<Rightarrow> (False, st)
             | Some drc20Data \<Rightarrow>
                 (log_raises drc20Data,
                  (fst (saveTransaction (fst st) blockHeight tid drc20Data (spk_hex spk)),
                   snd st @ [\<lparr>f_blockHeight = blockHeight, f_txid = tid,
                              f_data = drc20Data, f_hex = spk_hex spk\<rparr>])))
          else (False, st))"

fun scan_vouts ::
  "json_parser \<Rightarrow> int \<Rightarrow> string \<Rightarrow> scan_state \<Rightarrow> tx_out list \<Rightarrow> bool \<times> scan_state" where
  "scan_vouts P blockHeight tid st [] = (False, st)"
| "scan_vouts P blockHeight tid st (v # vs) =
     (if fst (scan_vout P blockHeight tid st v) then scan_vout P blockHeight tid st v
      else scan_vouts P blockHeight tid (snd (scan_vout P blockHeight tid st v)) vs)"

fun scan_txs ::
  "json_parser \<Rightarrow> int \<Rightarrow> scan_state \<Rightarrow> chain_tx list \<Rightarrow> bool \<times> scan_state" where
  "scan_txs P blockHeight st [] = (False, st)"
| "scan_txs P blockHeight st (t # ts) =
     (if fst (scan_vouts P blockHeight (txid t) st (vout t))
      then scan_vouts P blockHeight (txid t) st (vout t)
      else scan_txs P blockHeight (snd (scan_vouts P blockHeight (txid t) st (vout t))) ts)"

definition scan_height :: "json_parser \<Rightarrow> chain \<Rightarrow> int \<Rightarrow> scan_state \<Rightarrow> scan_state" where
  "scan_height P ch blockHeight st =
     (case ch blockHeight of
        None \<Rightarrow> st
      | Some b \<Rightarrow> snd (scan_txs P blockHeight st (tx b)))"

function scan_loop :: "json_parser \<Rightarrow> chain \<Rightarrow> int \<Rightarrow> int \<Rightarrow> scan_state \<Rightarrow> scan_state" where
  "scan_loop P ch blockHeight endBlock st =
     (if blockHeight \<le> endBlock
      then scan_loop P ch (blockHeight + 1) endBlock (scan_height P ch blockHeight st)
      else st)"
  by pat_completeness auto
termination
  by (relation "measure (\<lambda>(P, ch, b, e, st). nat (e + 1 - b))") auto

definition scanBlockRange :: "json_parser \<Rightarrow> chain \<Rightarrow> int \<Rightarrow> int \<Rightarrow> database \<Rightarrow> scan_state" where
  "scanBlockRange P ch startBlock endBlock db = scan_loop P ch startBlock endBlock (db, [])"

text \<open>\<open>initialScan\<close>, given the height that \<open>getblockcount\<close> reports, and one round of
  the \<open>while (true)\<close> of \<open>continuousMonitoring\<close>. In both the checkpoint is written by
  \<open>updateLastProcessedBlock\<close> once the whole range has been scanned.\<close>

definition initialScan :: "json_parser \<Rightarrow> chain \<Rightarrow> int \<Rightarrow> database \<Rightarrow> database" where
  "initialScan P ch currentHeight db =
     (let lastProcessed = getLastProcessedBlock db;
          startBlock =
            (case lastProcessed of
               None \<Rightarrow> max 5700000 (currentHeight - 5000)
             | Some l \<Rightarrow> if l \<noteq> 0 then l + 1 else max 5700000 (currentHeight - 5000))
      in if startBlock \<le> currentHeight
         then updateLastProcessedBlock currentHeight
                (fst (scanBlockRange P ch startBlock currentHeight db))
         else db)"

definition monitoring_round :: "json_parser \<Rightarrow> chain \<Rightarrow> int \<Rightarrow> database \<Rightarrow> database" where
  "monitoring_round P ch currentHeight db =
     (let lastProcessed =
            (case getLastProcessedBlock db of
               None \<Rightarrow> currentHeight - 1
             | Some l \<Rightarrow> if l \<noteq> 0 then l else currentHeight - 1)
      in if currentHeight > lastProcessed
         then updateLastProcessedBlock currentHeight
                (fst (scanBlockRange P ch (lastProcessed + 1) currentHeight db))
         else db)"

section \<open>The class \<open>DRC20Indexer\<close>: statistics and reconciliation\<close>

text \<open>
  SQLite semantics used by \<open>getTokenStats\<close>. \<open>CAST(text AS INTEGER)\<close> skips leading
  white space, reads an optional sign and the longest run of decimal digits, gives 0
  when there is no digit, and stops at the ends of the signed 64-bit range. \<open>SUM\<close> over
  integers adds them in row order and raises "integer overflow" as soon as a partial sum
  leaves that range; \<open>NULL\<close>s are skipped. The driver hands the 64-bit results to
  JavaScript as numbers (\<open>js_number\<close>).
\<close>

definition is_digit :: "char \<Rightarrow> bool" where
  "is_digit c = (48 \<le> (of_char c :: int) \<and> (of_char c :: int) \<le> 57)"

fun dec_value :: "int \<Rightarrow> string \<Rightarrow> int" where
  "dec_value acc [] = acc"
| "dec_value acc (c # cs) = dec_value (10 * acc + ((of_char c :: int) - 48)) cs"

definition is_sql_space :: "char \<Rightarrow> bool" where
  "is_sql_space c = ((of_char c :: int) \<in> {9, 10, 11, 12, 13, 32})"

definition sql_cast_integer :: "string \<Rightarrow> int" where
  "sql_cast_integer s =
     (let s1 = dropWhile is_sql_space s;
          neg = (take 1 s1 = ''-'');
          s2 = (if take 1 s1 = ''-'' \<or> take 1 s1 = ''+'' then drop 1 s1 else s1);
          v = dec_value 0 (takeWhile is_digit s2)
      in if neg then max (- (2 ^ 63)) (- v) else min (2 ^ 63 - 1) v)"

fun sql_sum :: "int \<Rightarrow> int list \<Rightarrow> int option" where
  "sql_sum acc [] = Some acc"
| "sql_sum acc (v # vs) =
     (if acc + v < - (2 ^ 63) \<or> 2 ^ 63 - 1 < acc + v then None else sql_sum (acc + v) vs)"

record token_stats =
  totalMinted :: int
  totalTransactions :: int

text \<open>The query of \<open>getTokenStats\<close> (the same text in both branches), and the method:
  its \<open>catch\<close> answers an SQL error with zeros.\<close>

definition mint_rows :: "database \<Rightarrow> string \<Rightarrow> transactions_row list" where
  "mint_rows db t =
     filter (\<lambda>r. tx_tick r = t \<and> tx_operation r = ''mint'' \<and> tx_is_valid r) (transactions db)"

definition mint_stats_query :: "database \<Rightarrow> string \<Rightarrow> token_stats option" where
  "mint_stats_query db t =
     (let rows = mint_rows db t;
          amounts = map sql_cast_integer (concat (map (\<lambda>r. case tx_amount r of None \<Rightarrow> [] | Some a \<Rightarrow> [a]) rows))
      in case sql_sum 0 amounts of
           None \<Rightarrow> None
         | Some s \<Rightarrow> Some \<lparr>totalMinted = js_number s,
                           totalTransactions = js_number (int (length rows))\<rparr>)"

definition getTokenStats :: "database \<Rightarrow> string \<Rightarrow> token_stats" where
  "getTokenStats db tick =
     (case (if toUpperCase tick = ''WOW''
            then mint_stats_query db (toUpperCase tick)
            else mint_stats_query db (toUpperCase tick)) of
        None \<Rightarrow> \<lparr>totalMinted = 0, totalTransactions = 0\<rparr>
      | Some result \<Rightarrow> result)"

text \<open>\<open>SELECT tick, COUNT(*) ... GROUP BY tick\<close>: one row for each tick, in the order of
  the ticks (SQLite groups by sorting on the key).\<close>

definition group_count :: "string list \<Rightarrow> (string \<times> int) list" where
  "group_count ts = map (\<lambda>t. (t, int (count_list ts t))) (sort (remdups ts))"

record counts =
  site :: int
  blockchain :: int

text \<open>The object \<open>result\<close> of \<open>getTransactionCounts\<close> is a plain object, \<open>{}\<close>, whose
  keys are set at run time: an association list of its own properties in insertion
  order, over the properties that it inherits from \<open>Object.prototype\<close>, whose names are
  \<open>object_prototype_keys\<close>. An assignment \<open>result[k] = v\<close> creates or updates an own
  property (\<open>AList.update\<close>). The test \<open>!result[k]\<close> of the second loop sees an inherited
  property as well as an own one; for a key that is inherited only, the branch taken
  sets \<open>blockchain\<close> on the inherited value, and \<open>result\<close> gets no own property.
  \<open>for (k in obj)\<close> visits the own keys that are array indices first, in numeric order,
  then the other own keys in insertion order; the properties of \<open>Object.prototype\<close> are
  not enumerable. The key \<open>__proto__\<close> is an accessor: assigning to it replaces the
  prototype of \<open>result\<close>. That is outside this model, which treats the key like the
  other inherited ones; the theorem about these functions is stated for databases in
  which no counted row has that tick.\<close>

definition object_prototype_keys :: "string list" where
  "object_prototype_keys =
     [''constructor'', ''__defineGetter__'', ''__defineSetter__'', ''hasOwnProperty'',
      ''__lookupGetter__'', ''__lookupSetter__'', ''isPrototypeOf'',
      ''propertyIsEnumerable'', ''toString'', ''valueOf'', ''__proto__'',
      ''toLocaleString'']"

definition is_array_index :: "string \<Rightarrow> bool" where
  "is_array_index s =
     (s \<noteq> [] \<and> list_all is_digit s \<and> (s = ''0'' \<or> hd s \<noteq> CHR ''0'')
      \<and> dec_value 0 s < 4294967295)"

definition for_in_keys :: "(string \<times> 'a) list \<Rightarrow> string list" where
  "for_in_keys obj =
     sort_key (dec_value 0) (filter is_array_index (map fst obj))
     @ filter (\<lambda>k. \<not> is_array_index k) (map fst obj)"

definition getTransactionCounts :: "database \<Rightarrow> string option \<Rightarrow> (string \<times> counts) list" where
  "getTransactionCounts db tick =
     (let wanted = (\<lambda>t. case tick of
                          None \<Rightarrow> True
                        | Some k \<Rightarrow> if k \<noteq> [] then t = toUpperCase k else True);
          siteCounts = group_count (filter wanted (map st_tick (site_transactions db)));
          blockchainCounts =
            group_count (filter wanted
              (map tx_tick (filter tx_is_blackdoge_tx (transactions db))));
          result1 =
            foldl (\<lambda>result (t, c). AList.update t \<lparr>site = c, blockchain = 0\<rparr> result)
              [] siteCounts
      in foldl (\<lambda>result (t, c).
                  case map_of result t of
                    None \<Rightarrow>
                      if t \<in> set object_prototype_keys then result
                      else AList.update t \<lparr>site = 0, blockchain = c\<rparr> result
                  | Some old \<Rightarrow> AList.update t (old\<lparr>blockchain := c\<rparr>) result)
           result1 blockchainCounts)"

record verification_detail =
  d_tick :: string
  d_siteCount :: int
  d_blockchainCount :: int
  d_isVerified :: bool
  d_discrepancy :: int

record verification_result =
  verified :: bool
  details :: "verification_detail list"

text \<open>\<open>verifyTransactionCounts\<close>: the row that one round of its loop inserts into
  \<open>verification_stats\<close>, the entry it pushes on \<open>details\<close>, the body of the loop, and
  the method. (\<open>counts[tick]\<close> is defined for every key that \<open>for ... in\<close> visits, so the
  \<open>None\<close> branch of \<open>verify_tick\<close> is never taken.)\<close>

definition verification_row :: "string \<Rightarrow> counts \<Rightarrow> verification_stats_row" where
  "verification_row t c =
     \<lparr>vs_tick = t,
      vs_site_count = site c,
      vs_blockchain_count = blockchain c,
      vs_is_verified = (site c = blockchain c),
      vs_discrepancy_details =
        (if site c = blockchain c then None
         else Some (''Site: '' @ show_int (site c) @ '', Blockchain: ''
                    @ show_int (blockchain c) @ '', Diff: ''
                    @ show_int (site c - blockchain c)))\<rparr>"

definition verification_detail_of :: "string \<Rightarrow> counts \<Rightarrow> verification_detail" where
  "verification_detail_of t c =
     \<lparr>d_tick = t, d_siteCount = site c, d_blockchainCount = blockchain c,
      d_isVerified = (site c = blockchain c), d_discrepancy = site c - blockchain c\<rparr>"

definition verify_tick ::
  "(string \<times> counts) list \<Rightarrow> database \<times> verification_result \<Rightarrow> string
     \<Rightarrow> database \<times> verification_result" where
  "verify_tick cnts st t =
     (case map_of cnts t of
        None \<Rightarrow> st
      | Some c \<Rightarrow>
          (let isVerified = (site c = blockchain c);
               db = fst st;
               res = snd st
           in (db\<lparr>verification_stats := verification_stats db @ [verification_row t c]\<rparr>,
               \<lparr>verified = (verified res \<and> isVerified),
                details = details res @ [verification_detail_of t c]\<rparr>)))"

definition verifyTransactionCounts :: "database \<Rightarrow> database \<times> verification_result" where
  "verifyTransactionCounts db =
     (let cnts = getTransactionCounts db None
      in foldl (verify_tick cnts) (db, \<lparr>verified = True, details = []\<rparr>) (for_in_keys cnts))"

section \<open>A JSON reader for the examples\<close>

text \<open>
  The concrete examples below need a value for the parser \<open>P\<close>. \<open>flat_json_parse\<close>
  reads the JSON texts of the protocol: one object whose members are strings, written
  in printable ASCII without escapes. On every text it accepts it returns what
  \<open>JSON.parse\<close> returns; it is used on such texts only.
\<close>

datatype json_token = TLBrace | TRBrace | TColon | TComma | TString string

definition is_json_space :: "char \<Rightarrow> bool" where
  "is_json_space c = ((of_char c :: int) \<in> {9, 10, 13, 32})"

definition json_punct :: "char \<Rightarrow> json_token option" where
  "json_punct c =
     (if c = CHR ''{'' then Some TLBrace
      else if c = CHR ''}'' then Some TRBrace
      else if c = CHR '':'' then Some TColon
      else if c = CHR '','' then Some TComma
      else None)"

fun json_lex :: "string option \<Rightarrow> string \<Rightarrow> json_token list option" where
  "json_lex None [] = Some []"
| "json_lex (Some acc) [] = None"
| "json_lex None (c # cs) =
     (if is_json_space c then json_lex None cs
      else if c = CHR 0x22 then json_lex (Some []) cs
      else (case json_punct c of
              None \<Rightarrow> None
            | Some t \<Rightarrow> map_option ((#) t) (json_lex None cs)))"
| "json_lex (Some acc) (c # cs) =
     (if c = CHR 0x22 then map_option ((#) (TString (rev acc))) (json_lex None cs)
      else if c = CHR 0x5C \<or> (of_char c :: int) < 32 \<or> 126 < (of_char c :: int) then None
      else json_lex (Some (c # acc)) cs)"

fun json_members :: "json_token list \<Rightarrow> (string \<times> json) list option" where
  "json_members (TString k # TColon # TString v # TRBrace # []) = Some [(k, JStr v)]"
| "json_members (TString k # TColon # TString v # TComma # rest) =
     map_option ((#) (k, JStr v)) (json_members rest)"
| "json_members _ = None"

definition flat_json_parse :: json_parser where
  "flat_json_parse s =
     (case json_lex None s of
        None \<Rightarrow> None
      | Some toks \<Rightarrow>
          (case toks of
             [] \<Rightarrow> None
           | t # rest \<Rightarrow>
               if t \<noteq> TLBrace then None
               else if rest = [TRBrace] then Some (JObj [])
               else (case json_members rest of
                       None \<Rightarrow> None
                     | Some kvs \<Rightarrow> if distinct (map fst kvs) then Some (JObj kvs) else None)))"

section \<open>Definitions for the analysis\<close>

subsection \<open>The scan as a fold\<close>

text \<open>
  \<open>found_in_range\<close> is the list \<open>drc20Transactions\<close> that \<open>scanBlockRange\<close> returns,
  computed without the database, and \<open>apply_found\<close> is the call of \<open>saveTransaction\<close>
  made for one of its entries. Like the scanning functions, \<open>found_in_vout\<close>,
  \<open>found_in_vouts\<close> and \<open>found_in_txs\<close> return \<open>True\<close> beside their list when the log
  line of its last entry raises, where the block is left. (\<open>scanBlockRange_found\<close> below
  proves that the scan is the fold of the one over the other.)
\<close>

definition apply_found :: "database \<Rightarrow> found_tx \<Rightarrow> database" where
  "apply_found db f =
     fst (saveTransaction db (f_blockHeight f) (f_txid f) (f_data f) (f_hex f))"

definition found_in_vout ::
  "json_parser \<Rightarrow> int \<Rightarrow> string \<Rightarrow> tx_out \<Rightarrow> bool \<times> found_tx list" where
  "found_in_vout P blockHeight tid v =
     (case scriptPubKey v of
        None \<Rightarrow> (False, [])
      | Some spk \<Rightarrow>
          if spk_type spk = ''nulldata'' \<and> spk_hex spk \<noteq> [] then
            (case parseDRC20FromHex P (spk_hex spk) of
               None \<Rightarrow> (False, [])
             | Some drc20Data \<Rightarrow>
                 (log_raises drc20Data,
                  [\<lparr>f_blockHeight = blockHeight, f_txid = tid,
                    f_data = drc20Data, f_hex = spk_hex spk\<rparr>]))
          else (False, []))"

fun found_in_vouts ::
  "json_parser \<Rightarrow> int \<Rightarrow> string \<Rightarrow> tx_out list \<Rightarrow> bool \<times> found_tx list" where
  "found_in_vouts P blockHeight tid [] = (False, [])"
| "found_in_vouts P blockHeight tid (v # vs) =
     (if fst (found_in_vout P blockHeight tid v) then found_in_vout P blockHeight tid v
      else (fst (found_in_vouts P blockHeight tid vs),
            snd (found_in_vout P blockHeight tid v) @ snd (found_in_vouts P blockHeight tid vs)))"

fun found_in_txs :: "json_parser \<Rightarrow> int \<Rightarrow> chain_tx list \<Rightarrow> bool \<times> found_tx list" where
  "found_in_txs P blockHeight [] = (False, [])"
| "found_in_txs P blockHeight (t # ts) =
     (if fst (found_in_vouts P blockHeight (txid t) (vout t))
      then found_in_vouts P blockHeight (txid t) (vout t)
      else (fst (found_in_txs P blockHeight ts),
            snd (found_in_vouts P blockHeight (txid t) (vout t))
            @ snd (found_in_txs P blockHeight ts)))"

definition found_in_height :: "json_parser \<Rightarrow> chain \<Rightarrow> int \<Rightarrow> found_tx list" where
  "found_in_height P ch blockHeight =
     (case ch blockHeight of
        None \<Rightarrow> []
      | Some b \<Rightarrow> snd (found_in_txs P blockHeight (tx b)))"

function found_in_range :: "json_parser \<Rightarrow> chain \<Rightarrow> int \<Rightarrow> int \<Rightarrow> found_tx list" where
  "found_in_range P ch blockHeight endBlock =
     (if blockHeight \<le> endBlock
      then found_in_height P ch blockHeight @ found_in_range P ch (blockHeight + 1) endBlock
      else [])"
  by pat_completeness auto
termination
  by (relation "measure (\<lambda>(P, ch, b, e). nat (e + 1 - b))") auto

definition ticks_of :: "database \<Rightarrow> string set" where
  "ticks_of db = set (map tok_tick (tokens db))"

definition deploy_txids_of :: "database \<Rightarrow> string set" where
  "deploy_txids_of db = set (map tok_deploy_txid (tokens db))"

definition txids_of :: "database \<Rightarrow> string set" where
  "txids_of db = set (map tx_txid (transactions db))"

definition is_mint :: "found_tx \<Rightarrow> bool" where
  "is_mint f = (js_get (f_data f) ''op'' = Some (JStr ''mint''))"

subsection \<open>The counts of the reconciliation\<close>




definition appended_records :: "database \<Rightarrow> verification_stats_row list" where
  "appended_records db =
     drop (length (verification_stats db))
       (verification_stats (fst (verifyTransactionCounts db)))"

subsection \<open>Sample scripts, chains and databases\<close>

text \<open>
  Output scripts as \<open>scriptPubKey.hex\<close> gives them: \<open>6a\<close>, a push of the payload, the
  payload. The payloads are
  \<^item> \<open>script_deploy_DOGE\<close>: \<^verbatim>\<open>{"p":"drc-20","op":"deploy","tick":"DOGE","max":"1500","lim":"1000"}\<close>
  \<^item> \<open>script_mint_DOGE_1000\<close>: \<^verbatim>\<open>{"p":"drc-20","op":"mint","tick":"DOGE","amt":"1000"}\<close>
  \<^item> \<open>script_mint_DOGE_1500\<close>: \<^verbatim>\<open>{"p":"drc-20","op":"mint","tick":"DOGE","amt":"1500"}\<close>
  \<^item> \<open>script_deploy_bare\<close>: \<^verbatim>\<open>{"p":"drc-20","op":"deploy","tick":"DOGE"}\<close>
  \<^item> \<open>script_mint_zero\<close>: \<^verbatim>\<open>{"p":"drc-20","op":"mint","tick":"DOGE","amt":"0"}\<close>
  \<^item> \<open>script_deploy_81\<close> (81 bytes, pushed with \<open>4c 51\<close>):
    \<^verbatim>\<open>{"p":"drc-20","op":"deploy","tick":"DOGECOINTOKENS","max":"1000000","lim":"1000"}\<close>
  \<^item> \<open>script_burn\<close>: \<^verbatim>\<open>{"p":"drc-20","op":"burn","tick":"DOGE","amt":"1000"}\<close>
  \<^item> \<open>script_not_json\<close>: \<^verbatim>\<open>hello\<close>
  \<^item> \<open>script_class_mint\<close>: \<^verbatim>\<open>{"p":"drc20","op":"mint","tick":"DOGE","amt":"1000"}\<close>
  \<^item> \<open>script_class_81\<close> (81 bytes after the two bytes \<open>6a 51\<close>):
    \<^verbatim>\<open>{"p":"drc20","op":"deploy","tick":"DOGECOINTOKENSX","max":"1000000","lim":"1000"}\<close>
\<close>

definition script_deploy_DOGE :: string where
  "script_deploy_DOGE = ''6a447b2270223a226472632d3230222c226f70223a226465706c6f79222c227469636b223a22444f4745222c226d6178223a2231353030222c226c696d223a2231303030227d''"

definition script_mint_DOGE_1000 :: string where
  "script_mint_DOGE_1000 = ''6a357b2270223a226472632d3230222c226f70223a226d696e74222c227469636b223a22444f4745222c22616d74223a2231303030227d''"

definition script_mint_DOGE_1500 :: string where
  "script_mint_DOGE_1500 = ''6a357b2270223a226472632d3230222c226f70223a226d696e74222c227469636b223a22444f4745222c22616d74223a2231353030227d''"

definition script_deploy_bare :: string where
  "script_deploy_bare = ''6a2a7b2270223a226472632d3230222c226f70223a226465706c6f79222c227469636b223a22444f4745227d''"

definition script_mint_zero :: string where
  "script_mint_zero = ''6a327b2270223a226472632d3230222c226f70223a226d696e74222c227469636b223a22444f4745222c22616d74223a2230227d''"

definition script_deploy_81 :: string where
  "script_deploy_81 = ''6a4c517b2270223a226472632d3230222c226f70223a226465706c6f79222c227469636b223a22444f4745434f494e544f4b454e53222c226d6178223a2231303030303030222c226c696d223a2231303030227d''"

definition script_burn :: string where
  "script_burn = ''6a357b2270223a226472632d3230222c226f70223a226275726e222c227469636b223a22444f4745222c22616d74223a2231303030227d''"

definition script_not_json :: string where
  "script_not_json = ''6a0568656c6c6f''"

definition script_class_mint :: string where
  "script_class_mint = ''6a347b2270223a226472633230222c226f70223a226d696e74222c227469636b223a22444f4745222c22616d74223a2231303030227d''"

definition script_class_81 :: string where
  "script_class_81 = ''6a517b2270223a226472633230222c226f70223a226465706c6f79222c227469636b223a22444f4745434f494e544f4b454e5358222c226d6178223a2231303030303030222c226c696d223a2231303030227d''"

text \<open>The values that \<open>JSON.parse\<close> gives for these payloads.\<close>

definition data_deploy_DOGE :: json where
  "data_deploy_DOGE =
     JObj [(''p'', JStr ''drc-20''), (''op'', JStr ''deploy''), (''tick'', JStr ''DOGE''),
           (''max'', JStr ''1500''), (''lim'', JStr ''1000'')]"

definition data_mint_DOGE :: "string \<Rightarrow> json" where
  "data_mint_DOGE amt =
     JObj [(''p'', JStr ''drc-20''), (''op'', JStr ''mint''), (''tick'', JStr ''DOGE''),
           (''amt'', JStr amt)]"

definition data_deploy_bare :: json where
  "data_deploy_bare =
     JObj [(''p'', JStr ''drc-20''), (''op'', JStr ''deploy''), (''tick'', JStr ''DOGE'')]"

definition data_deploy_81 :: json where
  "data_deploy_81 =
     JObj [(''p'', JStr ''drc-20''), (''op'', JStr ''deploy''),
           (''tick'', JStr ''DOGECOINTOKENS''), (''max'', JStr ''1000000''),
           (''lim'', JStr ''1000'')]"

definition data_burn :: json where
  "data_burn =
     JObj [(''p'', JStr ''drc-20''), (''op'', JStr ''burn''), (''tick'', JStr ''DOGE''),
           (''amt'', JStr ''1000'')]"

definition data_class_mint :: json where
  "data_class_mint =
     JObj [(''p'', JStr ''drc20''), (''op'', JStr ''mint''), (''tick'', JStr ''DOGE''),
           (''amt'', JStr ''1000'')]"

definition data_class_81 :: json where
  "data_class_81 =
     JObj [(''p'', JStr ''drc20''), (''op'', JStr ''deploy''),
           (''tick'', JStr ''DOGECOINTOKENSX''), (''max'', JStr ''1000000''),
           (''lim'', JStr ''1000'')]"

text \<open>A transaction whose outputs are null-data outputs with the given scripts, and a
  block of such transactions.\<close>

definition nulldata_tx :: "string \<Rightarrow> string list \<Rightarrow> chain_tx" where
  "nulldata_tx tid scripts =
     \<lparr>txid = tid,
      vout = map (\<lambda>h. \<lparr>scriptPubKey = Some \<lparr>spk_type = ''nulldata'', spk_hex = h\<rparr>\<rparr>) scripts\<rparr>"

definition block_of :: "string \<Rightarrow> string \<Rightarrow> chain_tx list \<Rightarrow> block" where
  "block_of h prev txs = \<lparr>hash = h, previousblockhash = prev, tx = txs\<rparr>"

text \<open>Height 1 deploys DOGE with \<open>max\<close> 1500 and \<open>lim\<close> 1000; height 2 mints 1000, 1000
  and 1500 in three transactions.\<close>

definition chain_over_limit :: chain where
  "chain_over_limit h =
     (if h = 1 then Some (block_of ''b1'' ''b0'' [nulldata_tx ''d1'' [script_deploy_DOGE]])
      else if h = 2 then
        Some (block_of ''b2'' ''b1''
               [nulldata_tx ''m1'' [script_mint_DOGE_1000],
                nulldata_tx ''m2'' [script_mint_DOGE_1000],
                nulldata_tx ''m3'' [script_mint_DOGE_1500]])
      else None)"

text \<open>Height 1 holds a mint of DOGE, then, in a later transaction, the deploy of DOGE.\<close>

definition chain_mint_first :: chain where
  "chain_mint_first h =
     (if h = 1 then
        Some (block_of ''b1'' ''b0''
               [nulldata_tx ''m1'' [script_mint_DOGE_1000],
                nulldata_tx ''d1'' [script_deploy_DOGE]])
      else None)"

text \<open>Height 1 holds one transaction that deploys DOGE and, in the next output, mints
  it.\<close>

definition chain_deploy_mint :: chain where
  "chain_deploy_mint h =
     (if h = 1 then
        Some (block_of ''b1'' ''b0''
               [nulldata_tx ''t1'' [script_deploy_DOGE, script_mint_DOGE_1000]])
      else None)"

text \<open>Height 1 holds a mint of DOGE only; the deploy without \<open>max\<close> and \<open>lim\<close> followed
  by a mint of \<open>0\<close>; the deploy of 81 bytes.\<close>

definition chain_mint_only :: chain where
  "chain_mint_only h =
     (if h = 1 then Some (block_of ''b1'' ''b0'' [nulldata_tx ''m1'' [script_mint_DOGE_1000]])
      else None)"

definition chain_unvalidated :: chain where
  "chain_unvalidated h =
     (if h = 1 then
        Some (block_of ''b1'' ''b0''
               [nulldata_tx ''d1'' [script_deploy_bare],
                nulldata_tx ''m1'' [script_mint_zero]])
      else None)"

definition chain_81 :: chain where
  "chain_81 h =
     (if h = 1 then Some (block_of ''b1'' ''b0'' [nulldata_tx ''d1'' [script_deploy_81]])
      else None)"

text \<open>Height 101 declares the previous hash \<open>bb\<close>; \<open>chain_fork'\<close> holds the same
  transaction under other hashes. \<open>db_checkpoint\<close> has the checkpoint \<open>(100, aa)\<close>.\<close>

definition chain_fork :: chain where
  "chain_fork h =
     (if h = 101 then
        Some (block_of ''cc'' ''bb'' [nulldata_tx ''d1'' [script_deploy_DOGE]])
      else None)"

definition chain_fork' :: chain where
  "chain_fork' h =
     (if h = 101 then
        Some (block_of ''ee'' ''aa'' [nulldata_tx ''d1'' [script_deploy_DOGE]])
      else None)"

definition db_checkpoint :: database where
  "db_checkpoint = empty_database\<lparr>indexer_state := Some (100, ''aa'')\<rparr>"

text \<open>A database in which DOGE is deployed and one mint of 9007199254740993
  (\<open>2 ^ 53 + 1\<close>) is recorded, both written by \<open>saveTransaction\<close>.\<close>

definition db_large_mint :: database where
  "db_large_mint =
     fst (saveTransaction
            (fst (saveTransaction empty_database 1 ''d1'' data_deploy_DOGE []))
            2 ''m1'' (data_mint_DOGE ''9007199254740993'') [])"

text \<open>A database with three site records (two for DOGE, one for WOW) and two
  \<open>is_blackdoge_tx\<close> rows for DOGE.\<close>

definition site_row :: "string \<Rightarrow> string \<Rightarrow> site_transactions_row" where
  "site_row tid t =
     \<lparr>st_txid = tid, st_tick = t, st_amount = ''1000'', st_operation = ''mint'',
      st_user_address = ''D1'', st_service_fee_paid = ''0.01'', st_source = ''website''\<rparr>"

definition blackdoge_row :: "string \<Rightarrow> string \<Rightarrow> transactions_row" where
  "blackdoge_row tid t =
     \<lparr>tx_txid = tid, tx_block_height = 1, tx_block_hash = ''b1'', tx_operation = ''mint'',
      tx_tick = t, tx_amount = Some ''1000'', tx_from_address = ''D1'',
      tx_to_address = ''D1'', tx_raw_json = data_mint_DOGE ''1000'',
      tx_service_fee_amount = ''0.01'', tx_is_blackdoge_tx = True, tx_is_valid = True\<rparr>"


text \<open>A database with a site record and an \<open>is_blackdoge_tx\<close> row for DOGE, and an
  \<open>is_blackdoge_tx\<close> row whose tick is \<open>constructor\<close>.\<close>

definition db_inherited_key :: database where
  "db_inherited_key =
     empty_database
       \<lparr>transactions := [blackdoge_row ''a1'' ''DOGE'', blackdoge_row ''a2'' ''constructor''],
        site_transactions := [site_row ''a1'' ''DOGE'']\<rparr>"

text \<open>Short forms of the records that the examples mention: an entry of the list that
  \<open>scanBlockRange\<close> returns, the row that \<open>saveTransaction\<close> writes for a deploy, and the
  row it writes for a mint.\<close>

definition found :: "int \<Rightarrow> string \<Rightarrow> json \<Rightarrow> string \<Rightarrow> found_tx" where
  "found h t d x = \<lparr>f_blockHeight = h, f_txid = t, f_data = d, f_hex = x\<rparr>"

definition token_row :: "string \<Rightarrow> string \<Rightarrow> string \<Rightarrow> string \<Rightarrow> int \<Rightarrow> tokens_row" where
  "token_row t mx lm tid h =
     \<lparr>tok_tick = t, tok_name = None, tok_max_supply = mx, tok_mint_limit = lm,
      tok_deploy_txid = tid, tok_deploy_block = h, tok_deploy_address = []\<rparr>"

definition mint_row :: "string \<Rightarrow> int \<Rightarrow> string \<Rightarrow> string \<Rightarrow> json \<Rightarrow> transactions_row" where
  "mint_row tid h t amt d =
     \<lparr>tx_txid = tid, tx_block_height = h, tx_block_hash = [], tx_operation = ''mint'',
      tx_tick = t, tx_amount = Some amt, tx_from_address = [], tx_to_address = [],
      tx_raw_json = d, tx_service_fee_amount = ''0'', tx_is_blackdoge_tx = False,
      tx_is_valid = True\<rparr>"

text \<open>A transfer, a mint without \<open>amt\<close>, payloads in which \<open>tick\<close> or \<open>amt\<close> is the
  object \<^verbatim>\<open>{"toString":1}\<close>, and the database in which DOGE is registered with \<open>'0'\<close> for
  \<open>max_supply\<close> and \<open>mint_limit\<close>.\<close>

definition data_mint_bad_tick :: json where
  "data_mint_bad_tick =
     JObj [(''p'', JStr ''drc-20''), (''op'', JStr ''mint''),
           (''tick'', JObj [(''toString'', JNum 1)])]"

definition data_mint_bad_amt :: json where
  "data_mint_bad_amt =
     JObj [(''p'', JStr ''drc-20''), (''op'', JStr ''mint''), (''tick'', JStr ''DOGE''),
           (''amt'', JObj [(''toString'', JNum 1)])]"


definition data_transfer_DOGE :: json where
  "data_transfer_DOGE =
     JObj [(''p'', JStr ''drc-20''), (''op'', JStr ''transfer''), (''tick'', JStr ''DOGE''),
           (''amt'', JStr ''500'')]"

definition data_mint_bare :: json where
  "data_mint_bare =
     JObj [(''p'', JStr ''drc-20''), (''op'', JStr ''mint''), (''tick'', JStr ''DOGE'')]"

definition db_bare :: database where
  "db_bare = empty_database\<lparr>tokens := [token_row ''DOGE'' ''0'' ''0'' ''d1'' 1]\<rparr>"


section \<open>General lemmas\<close>

declare show_nat.simps [simp del]
declare bit_length.simps [simp del]
declare scan_loop.simps [simp del]
declare found_in_range.simps [simp del]

subsection \<open>The scan is a fold of \<open>saveTransaction\<close> over the operations found\<close>


lemma scan_vout_found:
  "scan_vout P h tid st v =
     (fst (found_in_vout P h tid v),
      (foldl apply_found (fst st) (snd (found_in_vout P h tid v)),
       snd st @ snd (found_in_vout P h tid v)))"
  by (cases st) (simp add: scan_vout_def found_in_vout_def apply_found_def split: option.splits)

lemma scan_vouts_found:
  "scan_vouts P h tid st vs =
     (fst (found_in_vouts P h tid vs),
      (foldl apply_found (fst st) (snd (found_in_vouts P h tid vs)),
       snd st @ snd (found_in_vouts P h tid vs)))"
  by (induction vs arbitrary: st) (simp_all add: scan_vout_found)

lemma scan_txs_found:
  "scan_txs P h st ts =
     (fst (found_in_txs P h ts),
      (foldl apply_found (fst st) (snd (found_in_txs P h ts)),
       snd st @ snd (found_in_txs P h ts)))"
  by (induction ts arbitrary: st) (simp_all add: scan_vouts_found)

lemma scan_height_found:
  "scan_height P ch h st =
     (foldl apply_found (fst st) (found_in_height P ch h), snd st @ found_in_height P ch h)"
  by (simp add: scan_height_def found_in_height_def scan_txs_found split: option.splits)

text \<open>An operation whose log line raises is pushed and saved, and ends the scan of its
  block; after any other operation the scan goes on.\<close>

lemma raising_log_ends_the_block:
  assumes "parseDRC20FromHex P x = Some d" and "x \<noteq> []" and "log_raises d"
  shows "scan_txs P h st (nulldata_tx tid (x # xs) # txs)
         = (True, (fst (saveTransaction (fst st) h tid d x), snd st @ [found h tid d x]))"
  using assms by (simp add: nulldata_tx_def scan_vout_def found_def)

lemma quiet_log_goes_on:
  assumes "parseDRC20FromHex P x = Some d" and "x \<noteq> []" and "\<not> log_raises d"
  shows "scan_txs P h st (nulldata_tx tid [x] # txs)
         = scan_txs P h (fst (saveTransaction (fst st) h tid d x), snd st @ [found h tid d x]) txs"
  using assms by (simp add: nulldata_tx_def scan_vout_def found_def)

lemma found_in_range_step:
  "a \<le> b \<Longrightarrow>
   found_in_range P ch a b = found_in_height P ch a @ found_in_range P ch (a + 1) b"
  by (subst found_in_range.simps) simp

lemma found_in_range_done: "\<not> a \<le> b \<Longrightarrow> found_in_range P ch a b = []"
  by (subst found_in_range.simps) simp

lemma scan_loop_step:
  "a \<le> b \<Longrightarrow> scan_loop P ch a b st = scan_loop P ch (a + 1) b (scan_height P ch a st)"
  by (subst scan_loop.simps) simp

lemma scan_loop_done: "\<not> a \<le> b \<Longrightarrow> scan_loop P ch a b st = st"
  by (subst scan_loop.simps) simp

lemma scan_loop_found:
  "scan_loop P ch a b st =
     (foldl apply_found (fst st) (found_in_range P ch a b), snd st @ found_in_range P ch a b)"
proof (induction P ch a b st rule: scan_loop.induct)
  case (1 P ch a b st)
  show ?case
  proof (cases "a \<le> b")
    case True
    then show ?thesis
      using "1.IH" [OF True]
      by (simp add: scan_loop_step found_in_range_step scan_height_found)
  next
    case False
    then show ?thesis
      by (simp add: scan_loop_done found_in_range_done)
  qed
qed

lemma scanBlockRange_found:
  "scanBlockRange P ch a b db =
     (foldl apply_found db (found_in_range P ch a b), found_in_range P ch a b)"
  by (simp add: scanBlockRange_def scan_loop_found)


subsection \<open>What one \<open>saveTransaction\<close> does to the tables\<close>


text \<open>\<open>await isTokenDeployed(tick)\<close> is \<open>true\<close> exactly for a string whose upper-case
  form is a registered tick.\<close>

lemma isTokenDeployed_iff:
  "isTokenDeployed db tick =
     (case tick of
        Some (JStr t) \<Rightarrow> toUpperCase t \<in> set (map tok_tick (tokens db))
      | _ \<Rightarrow> False)"
  by (simp add: isTokenDeployed_def isTokenDeployed_promise_def
      split: option.splits json.splits)

text \<open>The database that \<open>saveTransaction\<close> leaves, whatever it answers.\<close>

lemma fst_saveTransaction:
  "fst (saveTransaction db blockHeight tid drc20Data opReturnHex) =
     (if drc20Data = JNull then db
      else if js_get drc20Data ''op'' = Some (JStr ''deploy'') then
        (case js_get drc20Data ''tick'' of
           Some (JStr t) \<Rightarrow>
             insert_or_ignore_tokens
                \<lparr>tok_tick = toUpperCase t,
                 tok_name = None,
                 tok_max_supply = sql_text (or_zero (js_get drc20Data ''max'')),
                 tok_mint_limit = sql_text (or_zero (js_get drc20Data ''lim'')),
                 tok_deploy_txid = tid,
                 tok_deploy_block = blockHeight,
                 tok_deploy_address = []\<rparr> db
         | _ \<Rightarrow> db)
      else if js_get drc20Data ''op'' = Some (JStr ''mint'')
              \<and> isTokenDeployed db (js_get drc20Data ''tick'') then
        (case js_get drc20Data ''tick'' of
           Some (JStr t) \<Rightarrow>
             insert_or_ignore_transactions
                \<lparr>tx_txid = tid,
                 tx_block_height = blockHeight,
                 tx_block_hash = [],
                 tx_operation = ''mint'',
                 tx_tick = toUpperCase t,
                 tx_amount = Some (sql_text (or_zero (js_get drc20Data ''amt''))),
                 tx_from_address = [],
                 tx_to_address = [],
                 tx_raw_json = drc20Data,
                 tx_service_fee_amount = ''0'',
                 tx_is_blackdoge_tx = False,
                 tx_is_valid = True\<rparr> db
         | _ \<Rightarrow> db)
      else db)"
  by (simp add: saveTransaction_def isTokenDeployed_def isTokenDeployed_promise_def
      split: option.splits json.splits sum.splits)

text \<open>When \<open>saveTransaction\<close> answers \<open>false\<close>.\<close>

lemma snd_saveTransaction:
  "snd (saveTransaction db blockHeight tid drc20Data opReturnHex) =
     (if drc20Data = JNull then False
      else if js_get drc20Data ''op'' = Some (JStr ''deploy'')
      then (\<exists>t. js_get drc20Data ''tick'' = Some (JStr t))
      else if js_get drc20Data ''op'' = Some (JStr ''mint'')
      then (case js_get drc20Data ''tick'' of
              Some (JStr t) \<Rightarrow>
                toUpperCase t \<in> set (map tok_tick (tokens db))
                  \<longrightarrow> \<not> template_raises (js_get drc20Data ''amt'')
            | v \<Rightarrow> \<not> template_raises v)
      else True)"
  by (simp add: saveTransaction_def isTokenDeployed_promise_def
      split: option.splits json.splits sum.splits)

lemmas save_defs = apply_found_def fst_saveTransaction insert_or_ignore_tokens_def
  insert_or_ignore_transactions_def Let_def

lemma apply_found_frame:
  "site_transactions (apply_found db f) = site_transactions db"
  "balances (apply_found db f) = balances db"
  "indexer_state (apply_found db f) = indexer_state db"
  "verification_stats (apply_found db f) = verification_stats db"
  by (simp_all add: save_defs split: option.splits json.splits)

lemma apply_found_mono:
  "ticks_of db \<subseteq> ticks_of (apply_found db f)"
  "deploy_txids_of db \<subseteq> deploy_txids_of (apply_found db f)"
  "txids_of db \<subseteq> txids_of (apply_found db f)"
  by (auto simp add: save_defs ticks_of_def deploy_txids_of_def txids_of_def
      split: option.splits json.splits)

lemma foldl_apply_found_frame:
  "site_transactions (foldl apply_found db fs) = site_transactions db"
  "balances (foldl apply_found db fs) = balances db"
  "indexer_state (foldl apply_found db fs) = indexer_state db"
  "verification_stats (foldl apply_found db fs) = verification_stats db"
  by (induction fs arbitrary: db) (simp_all add: apply_found_frame)

lemma foldl_apply_found_mono:
  "ticks_of db \<subseteq> ticks_of (foldl apply_found db fs)"
  "deploy_txids_of db \<subseteq> deploy_txids_of (foldl apply_found db fs)"
  "txids_of db \<subseteq> txids_of (foldl apply_found db fs)"
proof (induction fs arbitrary: db)
  case Nil
  { case 1 show ?case by simp }
  { case 2 show ?case by simp }
  { case 3 show ?case by simp }
next
  case (Cons f fs)
  { case 1 show ?case using Cons.IH(1) [of "apply_found db f"] apply_found_mono(1) [of db f] by auto }
  { case 2 show ?case using Cons.IH(2) [of "apply_found db f"] apply_found_mono(2) [of db f] by auto }
  { case 3 show ?case using Cons.IH(3) [of "apply_found db f"] apply_found_mono(3) [of db f] by auto }
qed

lemma isTokenDeployed_mono:
  "ticks_of db \<subseteq> ticks_of u \<Longrightarrow> isTokenDeployed db t \<Longrightarrow> isTokenDeployed u t"
  by (auto simp add: isTokenDeployed_iff ticks_of_def split: option.splits json.splits)

text \<open>Once an operation has been applied, applying it again to any later state leaves
  the token registry alone.\<close>

lemma tokens_settled:
  assumes "ticks_of (apply_found db f) \<subseteq> ticks_of u"
    and "deploy_txids_of (apply_found db f) \<subseteq> deploy_txids_of u"
  shows "tokens (apply_found u f) = tokens u"
  using assms
  by (auto simp add: save_defs ticks_of_def deploy_txids_of_def
      split: option.splits json.splits if_splits)

lemma not_mint_settled:
  assumes "ticks_of (apply_found db f) \<subseteq> ticks_of u"
    and "deploy_txids_of (apply_found db f) \<subseteq> deploy_txids_of u"
    and "\<not> (is_mint f \<and> isTokenDeployed u (js_get (f_data f) ''tick''))"
  shows "apply_found u f = u"
  using assms
  by (auto simp add: save_defs ticks_of_def deploy_txids_of_def is_mint_def
      split: option.splits json.splits if_splits)

lemma mint_settled:
  assumes "f_txid f \<in> txids_of u"
  shows "is_mint f \<Longrightarrow> isTokenDeployed u (js_get (f_data f) ''tick'') \<Longrightarrow> apply_found u f = u"
  using assms
  by (auto simp add: save_defs txids_of_def is_mint_def isTokenDeployed_iff
      split: option.splits json.splits if_splits)

lemma mint_recorded:
  assumes "is_mint f" and "isTokenDeployed db (js_get (f_data f) ''tick'')"
  shows "f_txid f \<in> txids_of (apply_found db f)"
  using assms
  by (auto simp add: save_defs txids_of_def is_mint_def isTokenDeployed_iff
      split: option.splits json.splits if_splits)


subsection \<open>A second pass over the same operations\<close>


lemma foldl_id:
  "(\<And>f. f \<in> set fs \<Longrightarrow> apply_found u f = u) \<Longrightarrow> foldl apply_found u fs = u"
  by (induction fs) simp_all

lemma foldl_tokens_fixed:
  "(\<And>f v. f \<in> set fs \<Longrightarrow> tokens v = T \<Longrightarrow> tokens (apply_found v f) = T)
   \<Longrightarrow> tokens u = T \<Longrightarrow> tokens (foldl apply_found u fs) = T"
  by (induction fs arbitrary: u) simp_all

text \<open>What a pass has applied stays applied: the state at the end of a pass over
  \<open>fs\<close> contains the ticks and txids present right after any \<open>f\<close> of \<open>fs\<close>.\<close>

lemma pass_contains:
  assumes "f \<in> set fs"
  obtains mid where
    "ticks_of (apply_found mid f) \<subseteq> ticks_of (foldl apply_found db fs)"
    "deploy_txids_of (apply_found mid f) \<subseteq> deploy_txids_of (foldl apply_found db fs)"
    "txids_of (apply_found mid f) \<subseteq> txids_of (foldl apply_found db fs)"
    "ticks_of db \<subseteq> ticks_of mid"
proof -
  from assms obtain as bs where split: "fs = as @ f # bs"
    by (auto dest: split_list)
  define mid where "mid = foldl apply_found db as"
  have end_eq: "foldl apply_found db fs = foldl apply_found (apply_found mid f) bs"
    by (simp add: split mid_def)
  show thesis
  proof (rule that [of mid])
    show "ticks_of (apply_found mid f) \<subseteq> ticks_of (foldl apply_found db fs)"
      unfolding end_eq by (rule foldl_apply_found_mono)
    show "deploy_txids_of (apply_found mid f) \<subseteq> deploy_txids_of (foldl apply_found db fs)"
      unfolding end_eq by (rule foldl_apply_found_mono)
    show "txids_of (apply_found mid f) \<subseteq> txids_of (foldl apply_found db fs)"
      unfolding end_eq by (rule foldl_apply_found_mono)
    show "ticks_of db \<subseteq> ticks_of mid"
      unfolding mid_def by (rule foldl_apply_found_mono)
  qed
qed

lemma second_pass_tokens:
  "tokens (foldl apply_found (foldl apply_found db fs) fs) = tokens (foldl apply_found db fs)"
proof (rule foldl_tokens_fixed)
  fix f :: found_tx and v :: database
  assume f: "f \<in> set fs" and v: "tokens v = tokens (foldl apply_found db fs)"
  from f obtain mid where
    "ticks_of (apply_found mid f) \<subseteq> ticks_of (foldl apply_found db fs)"
    "deploy_txids_of (apply_found mid f) \<subseteq> deploy_txids_of (foldl apply_found db fs)"
    by (rule pass_contains)
  then have "tokens (apply_found v f) = tokens v"
    using v by (intro tokens_settled [of mid f v]) (simp_all add: ticks_of_def deploy_txids_of_def)
  then show "tokens (apply_found v f) = tokens (foldl apply_found db fs)"
    using v by simp
qed simp

lemma second_pass_same_iff:
  fixes db fs
  defines "once \<equiv> foldl apply_found db fs"
  shows "foldl apply_found once fs = once \<longleftrightarrow>
         (\<forall>f\<in>set fs. is_mint f \<and> isTokenDeployed once (js_get (f_data f) ''tick'')
                       \<longrightarrow> f_txid f \<in> txids_of once)"
proof
  assume same: "foldl apply_found once fs = once"
  show "\<forall>f\<in>set fs. is_mint f \<and> isTokenDeployed once (js_get (f_data f) ''tick'')
                       \<longrightarrow> f_txid f \<in> txids_of once"
  proof (intro ballI impI)
    fix f
    assume f: "f \<in> set fs"
      and m: "is_mint f \<and> isTokenDeployed once (js_get (f_data f) ''tick'')"
    from f obtain mid where
      sub: "txids_of (apply_found mid f) \<subseteq> txids_of (foldl apply_found once fs)"
      and up: "ticks_of once \<subseteq> ticks_of mid"
      by (rule pass_contains [of f fs once])
    from m up have "isTokenDeployed mid (js_get (f_data f) ''tick'')"
      by (blast intro: isTokenDeployed_mono)
    with m have "f_txid f \<in> txids_of (apply_found mid f)"
      by (blast intro: mint_recorded)
    with sub show "f_txid f \<in> txids_of once"
      unfolding same by blast
  qed
next
  assume rec: "\<forall>f\<in>set fs. is_mint f \<and> isTokenDeployed once (js_get (f_data f) ''tick'')
                       \<longrightarrow> f_txid f \<in> txids_of once"
  show "foldl apply_found once fs = once"
  proof (rule foldl_id)
    fix f
    assume f: "f \<in> set fs"
    show "apply_found once f = once"
    proof (cases "is_mint f \<and> isTokenDeployed once (js_get (f_data f) ''tick'')")
      case True
      with rec f have "f_txid f \<in> txids_of once" by blast
      with True show ?thesis by (blast intro: mint_settled)
    next
      case False
      from f obtain mid where
        "ticks_of (apply_found mid f) \<subseteq> ticks_of once"
        "deploy_txids_of (apply_found mid f) \<subseteq> deploy_txids_of once"
        unfolding once_def by (rule pass_contains)
      with False show ?thesis by (intro not_mint_settled [of mid f once])
    qed
  qed
qed

lemma same_txs_found_height:
  "map_option tx (ch h) = map_option tx (ch' h) \<Longrightarrow>
   found_in_height P ch h = found_in_height P ch' h"
  by (auto simp add: found_in_height_def split: option.splits)

lemma same_txs_found_range:
  "(\<And>h. map_option tx (ch h) = map_option tx (ch' h)) \<Longrightarrow>
   found_in_range P ch a b = found_in_range P ch' a b"
proof (induction P ch a b rule: found_in_range.induct)
  case (1 P ch a b)
  show ?case
  proof (cases "a \<le> b")
    case True
    then show ?thesis
      using "1.IH" [OF True] "1.prems" same_txs_found_height [of ch a ch' P]
      by (simp add: found_in_range_step)
  next
    case False
    then show ?thesis by (simp add: found_in_range_done)
  qed
qed


subsection \<open>Decimal texts, \<open>CAST\<close> and \<open>SUM\<close>\<close>


lemma dec_value_snoc: "dec_value acc (xs @ [c]) = 10 * dec_value acc xs + ((of_char c :: int) - 48)"
  by (induction xs arbitrary: acc) simp_all

lemma of_char_digit: "0 \<le> d \<Longrightarrow> d < 10 \<Longrightarrow> (of_char (char_of (48 + d :: int)) :: int) = 48 + d"
  by (simp add: of_char_of)

lemma is_digit_char_of: "0 \<le> d \<Longrightarrow> d < 10 \<Longrightarrow> is_digit (char_of (48 + d :: int))"
  by (simp add: is_digit_def of_char_of)

lemma show_nat_digits: "0 \<le> n \<Longrightarrow> show_nat n \<noteq> [] \<and> list_all is_digit (show_nat n)"
proof (induction n rule: show_nat.induct)
  case (1 n)
  show ?case
  proof (cases "n < 10")
    case True
    with "1.prems" show ?thesis
      by (subst (1 2) show_nat.simps) (simp add: is_digit_char_of)
  next
    case False
    then have "0 \<le> n div 10" by simp
    with False "1.IH" have "list_all is_digit (show_nat (n div 10))" by simp
    moreover have "is_digit (char_of (48 + n mod 10))"
      by (rule is_digit_char_of) simp_all
    ultimately show ?thesis using False
      by (subst (1 2) show_nat.simps) simp
  qed
qed

lemma dec_value_show_nat: "0 \<le> n \<Longrightarrow> dec_value 0 (show_nat n) = n"
proof (induction n rule: show_nat.induct)
  case (1 n)
  show ?case
  proof (cases "n < 10")
    case True
    with "1.prems" show ?thesis
      by (subst show_nat.simps) (simp add: of_char_digit)
  next
    case False
    then have "dec_value 0 (show_nat (n div 10)) = n div 10"
      using "1.IH" by simp
    moreover have "(of_char (char_of (48 + n mod 10)) :: int) = 48 + n mod 10"
      by (rule of_char_digit) simp_all
    ultimately show ?thesis using False
      by (subst show_nat.simps) (simp add: dec_value_snoc)
  qed
qed

lemma digit_not_space: "is_digit c \<Longrightarrow> \<not> is_sql_space c"
  by (auto simp add: is_digit_def is_sql_space_def)

lemma digit_not_sign: "is_digit c \<Longrightarrow> c \<noteq> CHR ''-'' \<and> c \<noteq> CHR ''+''"
  by (auto simp add: is_digit_def)

lemma takeWhile_all: "list_all Q xs \<Longrightarrow> takeWhile Q xs = xs"
  by (induction xs) simp_all

lemma sql_cast_integer_digits:
  assumes "ds \<noteq> []" and "list_all is_digit ds"
  shows "sql_cast_integer ds = min (2 ^ 63 - 1) (dec_value 0 ds)"
proof -
  from assms obtain c cs where ds: "ds = c # cs" and c: "is_digit c"
    by (cases ds) auto
  have a: "dropWhile is_sql_space ds = ds"
    using c by (simp add: ds digit_not_space)
  have b: "(take 1 ds = ''-'') = False" "(take 1 ds = ''+'') = False"
    using digit_not_sign [OF c] by (simp_all add: ds)
  have d: "takeWhile is_digit ds = ds"
    using assms(2) by (rule takeWhile_all)
  show ?thesis
    unfolding sql_cast_integer_def Let_def by (simp only: a b d if_False simp_thms)
qed

lemma sql_sum_exact:
  "\<forall>v\<in>set vs. 0 \<le> v \<Longrightarrow> 0 \<le> acc \<Longrightarrow> acc + sum_list vs < 2 ^ 63 \<Longrightarrow>
   sql_sum acc vs = Some (acc + sum_list vs)"
proof (induction vs arbitrary: acc)
  case Nil
  then show ?case by simp
next
  case (Cons v vs)
  have nonneg: "0 \<le> sum_list vs"
    using Cons.prems(1) by (intro sum_list_nonneg) simp
  have "0 \<le> v" using Cons.prems(1) by simp
  then have range: "\<not> (acc + v < - (2 ^ 63) \<or> 2 ^ 63 - 1 < acc + v)"
    using Cons.prems(2,3) nonneg by simp
  have "sql_sum (acc + v) vs = Some (acc + v + sum_list vs)"
    using Cons.prems \<open>0 \<le> v\<close> by (intro Cons.IH) (simp_all add: add.assoc)
  with range show ?case by (simp add: add.assoc)
qed

lemma js_number_exact: "\<bar>n\<bar> < 2 ^ 53 \<Longrightarrow> js_number n = n"
  by (simp add: js_number_def)

lemma le_sum_list: "\<forall>v\<in>set vs. (0::int) \<le> v \<Longrightarrow> a \<in> set vs \<Longrightarrow> a \<le> sum_list vs"
  by (induction vs) (auto simp add: sum_list_nonneg intro: add_increasing add_increasing2)

lemma amounts_of_rows:
  assumes "map tx_amount rows = map (\<lambda>a. Some (show_nat a)) amounts"
  shows "concat (map (\<lambda>r. case tx_amount r of None \<Rightarrow> [] | Some a \<Rightarrow> [a]) rows) = map show_nat amounts"
  using assms by (induction rows arbitrary: amounts) auto


subsection \<open>The counts that \<open>getTransactionCounts\<close> returns\<close>


















subsection \<open>Rows added by a pass, and the checkpoint during a pass\<close>

lemma apply_found_rows_valid:
  "r \<in> set (transactions (apply_found db f)) \<Longrightarrow> r \<in> set (transactions db) \<or> tx_is_valid r"
  by (auto simp add: save_defs split: option.splits json.splits if_splits)

lemma foldl_apply_found_rows_valid:
  "r \<in> set (transactions (foldl apply_found db fs)) \<Longrightarrow>
   r \<in> set (transactions db) \<or> tx_is_valid r"
proof (induction fs arbitrary: db)
  case Nil
  then show ?case by simp
next
  case (Cons f fs)
  from Cons.prems have "r \<in> set (transactions (foldl apply_found (apply_found db f) fs))"
    by simp
  then have "r \<in> set (transactions (apply_found db f)) \<or> tx_is_valid r"
    by (rule Cons.IH)
  then show ?case
    using apply_found_rows_valid [of r db f] by blast
qed

lemma apply_found_checkpoint:
  "apply_found (db\<lparr>indexer_state := s\<rparr>) f = (apply_found db f)\<lparr>indexer_state := s\<rparr>"
  by (simp add: save_defs isTokenDeployed_iff split: option.splits json.splits)

lemma foldl_apply_found_checkpoint:
  "foldl apply_found (db\<lparr>indexer_state := s\<rparr>) fs = (foldl apply_found db fs)\<lparr>indexer_state := s\<rparr>"
  by (induction fs arbitrary: db) (simp_all add: apply_found_checkpoint)

section \<open>The samples, evaluated\<close>

lemma parse_deploy_DOGE:
  "parseDRC20FromHex flat_json_parse script_deploy_DOGE = Some data_deploy_DOGE"
  by code_simp

lemma parse_mint_DOGE_1000:
  "parseDRC20FromHex flat_json_parse script_mint_DOGE_1000 = Some (data_mint_DOGE ''1000'')"
  by code_simp

lemma parse_mint_DOGE_1500:
  "parseDRC20FromHex flat_json_parse script_mint_DOGE_1500 = Some (data_mint_DOGE ''1500'')"
  by code_simp

lemma parse_deploy_bare:
  "parseDRC20FromHex flat_json_parse script_deploy_bare = Some data_deploy_bare"
  by code_simp

lemma parse_mint_zero:
  "parseDRC20FromHex flat_json_parse script_mint_zero = Some (data_mint_DOGE ''0'')"
  by code_simp

lemma parse_deploy_81:
  "parseDRC20FromHex flat_json_parse script_deploy_81 = Some data_deploy_81"
  by code_simp

lemma parse_class_mint:
  "parseDRC20Json flat_json_parse script_class_mint = Some data_class_mint"
  by code_simp

lemma parse_class_81:
  "parseDRC20Json flat_json_parse script_class_81 = Some data_class_81"
  by code_simp

lemma parse_burn:
  "parseDRC20FromHex flat_json_parse script_burn = Some data_burn"
  by code_simp

lemma parse_class_protocol_mint:
  "parseDRC20Json flat_json_parse script_mint_DOGE_1000 = None"
  by code_simp

lemma text_burn:
  "strip_push script_burn = Some (drop 4 script_burn)"
  "flat_json_parse (hex_decode (drop 4 script_burn)) = Some data_burn"
  by code_simp+

lemma text_class_mint:
  "strip_push script_class_mint = Some (drop 4 script_class_mint)"
  "flat_json_parse (hex_decode (drop 4 script_class_mint)) = Some data_class_mint"
  by code_simp+

lemma text_not_json:
  "strip_push script_not_json = Some (drop 4 script_not_json)"
  "flat_json_parse (hex_decode (drop 4 script_not_json)) = None"
  by code_simp+

lemma text_mint_DOGE_1000:
  "flat_json_parse (hex_decode (drop 4 script_mint_DOGE_1000)) = Some (data_mint_DOGE ''1000'')"
  by code_simp

lemma length_81:
  "length (hex_decode (drop 6 script_deploy_81)) = 81"
  "length (hex_decode (drop 4 script_class_81)) = 81"
  by code_simp+

lemma script_nonempty:
  "script_deploy_DOGE \<noteq> []" "script_mint_DOGE_1000 \<noteq> []" "script_mint_DOGE_1500 \<noteq> []"
  "script_deploy_bare \<noteq> []" "script_mint_zero \<noteq> []" "script_deploy_81 \<noteq> []"
  by (simp_all add: script_deploy_DOGE_def script_mint_DOGE_1000_def script_mint_DOGE_1500_def
      script_deploy_bare_def script_mint_zero_def script_deploy_81_def)

lemmas parse_samples = parse_deploy_DOGE parse_mint_DOGE_1000 parse_mint_DOGE_1500
  parse_deploy_bare parse_mint_zero parse_deploy_81 script_nonempty

lemma log_samples:
  "\<not> log_raises data_deploy_DOGE" "\<not> log_raises (data_mint_DOGE amt)"
  "\<not> log_raises data_deploy_bare" "\<not> log_raises data_deploy_81"
  by (simp_all add: log_raises_def template_raises_def data_deploy_DOGE_def
      data_mint_DOGE_def data_deploy_bare_def data_deploy_81_def)

lemmas found_defs = found_in_range_step found_in_range_done found_in_height_def
  block_of_def nulldata_tx_def found_in_vout_def log_samples

lemmas eval_defs = save_defs isTokenDeployed_iff toUpperCase_def upper_char_def or_zero_def
  sql_text_def template_raises_def data_deploy_DOGE_def data_mint_DOGE_def data_deploy_bare_def
  data_deploy_81_def empty_database_def


lemma found_over_limit:
  "found_in_range flat_json_parse chain_over_limit 1 2 =
     [found 1 ''d1'' data_deploy_DOGE script_deploy_DOGE,
      found 2 ''m1'' (data_mint_DOGE ''1000'') script_mint_DOGE_1000,
      found 2 ''m2'' (data_mint_DOGE ''1000'') script_mint_DOGE_1000,
      found 2 ''m3'' (data_mint_DOGE ''1500'') script_mint_DOGE_1500]"
  by (simp add: found_defs chain_over_limit_def parse_samples found_def)

lemma found_mint_first:
  "found_in_range flat_json_parse chain_mint_first 1 1 =
     [found 1 ''m1'' (data_mint_DOGE ''1000'') script_mint_DOGE_1000,
      found 1 ''d1'' data_deploy_DOGE script_deploy_DOGE]"
  by (simp add: found_defs chain_mint_first_def parse_samples found_def)

lemma found_deploy_mint:
  "found_in_range flat_json_parse chain_deploy_mint 1 1 =
     [found 1 ''t1'' data_deploy_DOGE script_deploy_DOGE,
      found 1 ''t1'' (data_mint_DOGE ''1000'') script_mint_DOGE_1000]"
  by (simp add: found_defs chain_deploy_mint_def parse_samples found_def)

lemma found_mint_only:
  "found_in_range flat_json_parse chain_mint_only 1 1 =
     [found 1 ''m1'' (data_mint_DOGE ''1000'') script_mint_DOGE_1000]"
  by (simp add: found_defs chain_mint_only_def parse_samples found_def)

lemma found_unvalidated:
  "found_in_range flat_json_parse chain_unvalidated 1 1 =
     [found 1 ''d1'' data_deploy_bare script_deploy_bare,
      found 1 ''m1'' (data_mint_DOGE ''0'') script_mint_zero]"
  by (simp add: found_defs chain_unvalidated_def parse_samples found_def)

lemma found_81:
  "found_in_range flat_json_parse chain_81 1 1 =
     [found 1 ''d1'' data_deploy_81 script_deploy_81]"
  by (simp add: found_defs chain_81_def parse_samples found_def)

lemma found_fork:
  "found_in_range flat_json_parse chain_fork 101 101 =
     [found 101 ''d1'' data_deploy_DOGE script_deploy_DOGE]"
  by (simp add: found_defs chain_fork_def parse_samples found_def)

lemma scan_over_limit:
  "fst (scanBlockRange flat_json_parse chain_over_limit 1 2 empty_database) =
     empty_database
       \<lparr>tokens := [token_row ''DOGE'' ''1500'' ''1000'' ''d1'' 1],
        transactions :=
          [mint_row ''m1'' 2 ''DOGE'' ''1000'' (data_mint_DOGE ''1000''),
           mint_row ''m2'' 2 ''DOGE'' ''1000'' (data_mint_DOGE ''1000''),
           mint_row ''m3'' 2 ''DOGE'' ''1500'' (data_mint_DOGE ''1500'')]\<rparr>"
  by (simp add: scanBlockRange_found found_over_limit found_def eval_defs token_row_def
      mint_row_def)

lemma scan_mint_first:
  "fst (scanBlockRange flat_json_parse chain_mint_first 1 1 empty_database) =
     empty_database\<lparr>tokens := [token_row ''DOGE'' ''1500'' ''1000'' ''d1'' 1]\<rparr>"
  by (simp add: scanBlockRange_found found_mint_first found_def eval_defs token_row_def)

lemma scan_mint_first_again:
  "fst (scanBlockRange flat_json_parse chain_mint_first 1 1
          (empty_database\<lparr>tokens := [token_row ''DOGE'' ''1500'' ''1000'' ''d1'' 1]\<rparr>)) =
     empty_database
       \<lparr>tokens := [token_row ''DOGE'' ''1500'' ''1000'' ''d1'' 1],
        transactions := [mint_row ''m1'' 1 ''DOGE'' ''1000'' (data_mint_DOGE ''1000'')]\<rparr>"
  by (simp add: scanBlockRange_found found_mint_first found_def eval_defs token_row_def
      mint_row_def)

lemma scan_deploy_mint:
  "fst (scanBlockRange flat_json_parse chain_deploy_mint 1 1 empty_database) =
     empty_database
       \<lparr>tokens := [token_row ''DOGE'' ''1500'' ''1000'' ''t1'' 1],
        transactions := [mint_row ''t1'' 1 ''DOGE'' ''1000'' (data_mint_DOGE ''1000'')]\<rparr>"
  by (simp add: scanBlockRange_found found_deploy_mint found_def eval_defs token_row_def
      mint_row_def)

lemma scan_mint_only:
  "scanBlockRange flat_json_parse chain_mint_only 1 1 empty_database =
     (empty_database, [found 1 ''m1'' (data_mint_DOGE ''1000'') script_mint_DOGE_1000])"
  by (simp add: scanBlockRange_found found_mint_only found_def eval_defs)

lemma scan_unvalidated:
  "fst (scanBlockRange flat_json_parse chain_unvalidated 1 1 empty_database) =
     empty_database
       \<lparr>tokens := [token_row ''DOGE'' ''0'' ''0'' ''d1'' 1],
        transactions := [mint_row ''m1'' 1 ''DOGE'' ''0'' (data_mint_DOGE ''0'')]\<rparr>"
  by (simp add: scanBlockRange_found found_unvalidated found_def eval_defs token_row_def
      mint_row_def)

lemma scan_81:
  "fst (scanBlockRange flat_json_parse chain_81 1 1 empty_database) =
     empty_database\<lparr>tokens := [token_row ''DOGECOINTOKENS'' ''1000000'' ''1000'' ''d1'' 1]\<rparr>"
  by (simp add: scanBlockRange_found found_81 found_def eval_defs token_row_def)

lemma scan_fork:
  "initialScan flat_json_parse chain_fork 101 db_checkpoint =
     empty_database
       \<lparr>tokens := [token_row ''DOGE'' ''1500'' ''1000'' ''d1'' 101],
        indexer_state := Some (101, [])\<rparr>"
  by (simp add: initialScan_def getLastProcessedBlock_def updateLastProcessedBlock_def
      db_checkpoint_def scanBlockRange_found found_fork found_def eval_defs token_row_def)

lemma stats_over_limit:
  "totalMinted (getTokenStats
     (empty_database
       \<lparr>tokens := [token_row ''DOGE'' ''1500'' ''1000'' ''d1'' 1],
        transactions :=
          [mint_row ''m1'' 2 ''DOGE'' ''1000'' (data_mint_DOGE ''1000''),
           mint_row ''m2'' 2 ''DOGE'' ''1000'' (data_mint_DOGE ''1000''),
           mint_row ''m3'' 2 ''DOGE'' ''1500'' (data_mint_DOGE ''1500'')]\<rparr>) ''DOGE'') = 3500"
  by code_simp

lemma large_db:
  "db_large_mint =
     empty_database
       \<lparr>tokens := [token_row ''DOGE'' ''1500'' ''1000'' ''d1'' 1],
        transactions :=
          [mint_row ''m1'' 2 ''DOGE'' ''9007199254740993''
             (data_mint_DOGE ''9007199254740993'')]\<rparr>"
  by (simp add: db_large_mint_def eval_defs token_row_def mint_row_def)

lemma large_mint_rows:
  "map tx_amount (mint_rows db_large_mint ''DOGE'') = [Some ''9007199254740993'']"
  by (simp add: large_db mint_rows_def empty_database_def mint_row_def)

lemma large_mint_stats:
  "totalMinted (getTokenStats
     (empty_database
       \<lparr>tokens := [token_row ''DOGE'' ''1500'' ''1000'' ''d1'' 1],
        transactions :=
          [mint_row ''m1'' 2 ''DOGE'' ''9007199254740993''
             (data_mint_DOGE ''9007199254740993'')]\<rparr>) ''DOGE'') = 9007199254740992"
  by code_simp

lemma text_deploy_bare:
  "(case strip_push script_deploy_bare of
      None \<Rightarrow> None
    | Some dataHex \<Rightarrow> flat_json_parse (hex_decode dataHex)) = Some data_deploy_bare"
  by code_simp

lemma show_samples: "show_nat 1000 = ''1000''" "show_nat 1500 = ''1500''"
  by code_simp+

lemma upper_doge: "toUpperCase ''doge'' = ''DOGE''"
  by code_simp


text \<open>A tick \<open>constructor\<close> that has an \<open>is_blackdoge_tx\<close> row and no site record never
  becomes a key of \<open>result\<close>: the loop of \<open>verifyTransactionCounts\<close> visits DOGE only.\<close>

lemma inherited_key_records:
  "appended_records db_inherited_key =
     [\<lparr>vs_tick = ''DOGE'', vs_site_count = 1, vs_blockchain_count = 1, vs_is_verified = True,
       vs_discrepancy_details = None\<rparr>]"
  by code_simp

text \<open>No name of a property of \<open>Object.prototype\<close> is in upper case.\<close>

lemma upper_case_not_inherited: "toUpperCase t = t \<Longrightarrow> t \<notin> set object_prototype_keys"
proof -
  have "list_all (\<lambda>k. toUpperCase k \<noteq> k) object_prototype_keys"
    by code_simp
  then show "toUpperCase t = t \<Longrightarrow> t \<notin> set object_prototype_keys"
    by (auto simp add: list_all_iff)
qed

text \<open>What \<open>saveTransaction\<close> answers where an interpolation raises: \<open>false\<close>, with
  nothing written when the tick of a mint cannot be converted to a string, and with the
  row written when its \<open>amt\<close> cannot. The texts stored for numbers and arrays.\<close>

lemma save_bad_tick:
  "saveTransaction db_bare 2 ''m1'' data_mint_bad_tick [] = (db_bare, False)"
  by (simp add: saveTransaction_def isTokenDeployed_promise_def template_raises_def
      data_mint_bad_tick_def)

lemma save_bad_amt:
  "saveTransaction db_bare 2 ''m1'' data_mint_bad_amt [] =
     (db_bare\<lparr>transactions :=
        [mint_row ''m1'' 2 ''DOGE'' ''[object Object]'' data_mint_bad_amt]\<rparr>, False)"
  by (simp add: saveTransaction_def isTokenDeployed_promise_def template_raises_def
      data_mint_bad_amt_def db_bare_def empty_database_def token_row_def mint_row_def
      toUpperCase_def upper_char_def insert_or_ignore_transactions_def or_zero_def
      sql_text_def)

lemma sql_text_samples:
  "sql_text (JNum 1000) = ''1000''"
  "sql_text (JNum 3000000000) = ''3000000000.0''"
  "sql_text (JNum 9007199254740993) = ''9.00719925474099e+15''"
  "sql_text (JNum 1000000000000000) = ''1.0e+15''"
  "sql_text (JArr [JNum 1, JNum 2]) = ''[object Object]''"
  by code_simp+

lemma upper_samples:
  "toUpperCase [CHR 0xE9] = [CHR 0xC9]" "toUpperCase [CHR 0xDF] = ''SS''"
  by code_simp+

section \<open>The claims\<close>

text \<open>
  C1. The specification has a mint rejected as ExceedsMintLimit when its amount exceeds
  the token's mint limit and as SupplyExhausted when it would take the minted total above
  the maximum supply, the ledger staying as it was. The code does not do this:
  \<open>saveTransaction\<close> compares a mint with neither \<open>mint_limit\<close> nor \<open>max_supply\<close>. With
  DOGE deployed at \<open>max\<close> 1500 and \<open>lim\<close> 1000, the mints of 1000, 1000 and 1500 are all
  stored with \<open>is_valid = 1\<close>, and \<open>getTokenStats\<close> reports 3500 minted.
\<close>

theorem C1_mints_beyond_limit_and_supply_are_recorded:
  "map (\<lambda>r. (tok_tick r, tok_max_supply r, tok_mint_limit r))
     (tokens (fst (scanBlockRange flat_json_parse chain_over_limit 1 2 empty_database)))
     = [(''DOGE'', ''1500'', ''1000'')]
   \<and> map (\<lambda>r. (tx_txid r, tx_amount r, tx_is_valid r))
       (transactions (fst (scanBlockRange flat_json_parse chain_over_limit 1 2 empty_database)))
     = [(''m1'', Some ''1000'', True), (''m2'', Some ''1000'', True),
        (''m3'', Some ''1500'', True)]
   \<and> totalMinted
       (getTokenStats (fst (scanBlockRange flat_json_parse chain_over_limit 1 2 empty_database))
          ''DOGE'') = 3500"
  by (simp add: scan_over_limit stats_over_limit) (simp add: token_row_def mint_row_def)

text \<open>
  C2. The specification has a second processing of a block height give the ledger that
  one processing gives, and the checkpoint advance atomically with the ledger writes of
  the block. What holds of the code: a second pass over a range of heights never changes
  the token registry, and it leaves the whole database as the first pass left it
  whenever the first pass has recorded, under its txid, every mint it found whose token
  is registered at the end of the pass. The scan writes the ledger without touching the
  checkpoint; \<open>initialScan\<close> either changes nothing or leaves the checkpoint
  \<open>(currentHeight, '')\<close>, written after the scan of the whole range.
\<close>

theorem C2_second_pass_over_a_range:
  "tokens (fst (scanBlockRange P ch a b (fst (scanBlockRange P ch a b db))))
     = tokens (fst (scanBlockRange P ch a b db))
   \<and> ((\<forall>f\<in>set (snd (scanBlockRange P ch a b db)).
         js_get (f_data f) ''op'' = Some (JStr ''mint'')
         \<and> isTokenDeployed (fst (scanBlockRange P ch a b db)) (js_get (f_data f) ''tick'')
         \<longrightarrow> f_txid f \<in> set (map tx_txid (transactions (fst (scanBlockRange P ch a b db)))))
      \<longrightarrow> fst (scanBlockRange P ch a b (fst (scanBlockRange P ch a b db)))
          = fst (scanBlockRange P ch a b db))
   \<and> indexer_state (fst (scanBlockRange P ch a b db)) = indexer_state db
   \<and> (initialScan P ch c db = db
      \<or> indexer_state (initialScan P ch c db) = Some (c, []))"
proof -
  have "initialScan P ch c db = db
      \<or> indexer_state (initialScan P ch c db) = Some (c, [])"
    by (simp add: initialScan_def updateLastProcessedBlock_def Let_def)
  then show ?thesis
    using second_pass_tokens [of db "found_in_range P ch a b"]
      second_pass_same_iff [of db "found_in_range P ch a b"]
    by (simp add: scanBlockRange_found foldl_apply_found_frame is_mint_def txids_of_def)
qed

theorem C2_second_pass_counterexample:
  "fst (scanBlockRange flat_json_parse chain_mint_first 1 1
          (fst (scanBlockRange flat_json_parse chain_mint_first 1 1 empty_database)))
     \<noteq> fst (scanBlockRange flat_json_parse chain_mint_first 1 1 empty_database)
   \<and> tokens (fst (scanBlockRange flat_json_parse chain_mint_first 1 1 empty_database)) \<noteq> []
   \<and> indexer_state (fst (scanBlockRange flat_json_parse chain_mint_first 1 1 empty_database))
       = None"
  by (simp add: scan_mint_first scan_mint_first_again) (simp add: empty_database_def)

theorem C2_second_pass_witness:
  "fst (scanBlockRange flat_json_parse chain_deploy_mint 1 1
          (fst (scanBlockRange flat_json_parse chain_deploy_mint 1 1 empty_database)))
     = fst (scanBlockRange flat_json_parse chain_deploy_mint 1 1 empty_database)
   \<and> map tx_txid
       (transactions (fst (scanBlockRange flat_json_parse chain_deploy_mint 1 1 empty_database)))
     = [''t1'']"
proof -
  have recorded:
    "\<forall>f\<in>set (snd (scanBlockRange flat_json_parse chain_deploy_mint 1 1 empty_database)).
       js_get (f_data f) ''op'' = Some (JStr ''mint'')
       \<and> isTokenDeployed (fst (scanBlockRange flat_json_parse chain_deploy_mint 1 1 empty_database))
            (js_get (f_data f) ''tick'')
       \<longrightarrow> f_txid f \<in> set (map tx_txid
             (transactions (fst (scanBlockRange flat_json_parse chain_deploy_mint 1 1 empty_database))))"
    by (simp add: scan_deploy_mint)
       (simp add: scanBlockRange_found found_deploy_mint found_def mint_row_def
          empty_database_def data_deploy_DOGE_def)
  have "map tx_txid
       (transactions (fst (scanBlockRange flat_json_parse chain_deploy_mint 1 1 empty_database)))
     = [''t1'']"
    by (simp add: scan_deploy_mint) (simp add: mint_row_def empty_database_def)
  with recorded
    C2_second_pass_over_a_range [of flat_json_parse chain_deploy_mint 1 1 empty_database]
  show ?thesis by blast
qed

text \<open>
  C3. The specification has the decoder accept a payload only if its \<open>p\<close> is exactly
  the protocol tag and its \<open>op\<close> is one of deploy, mint and transfer, every other payload
  being "not this protocol" and not an error. The protocol tag is \<open>drc-20\<close>. The decoder
  that the scanner calls, \<open>parseDRC20FromHex\<close>, does not restrict \<open>op\<close>: it accepts the
  payload of \<open>script_burn\<close>, whose \<open>op\<close> is \<open>burn\<close>. What holds of it: it accepts only a
  value whose \<open>p\<close> is exactly \<open>drc-20\<close> and whose \<open>op\<close> and \<open>tick\<close> are truthy, and it
  accepts every such value, whatever its \<open>op\<close>; a value with another \<open>p\<close> makes it return
  \<open>null\<close>; so does a text that is not JSON, whose SyntaxError it catches. The decoder
  of the class, \<open>parseDRC20Json\<close>, accepts only a value whose \<open>op\<close> is deploy or mint.
\<close>

theorem C3_decoder_compares_the_tag_and_lets_any_op_through:
  "(parseDRC20FromHex P opReturnHex = Some d \<longrightarrow>
      js_get d ''p'' = Some (JStr ''drc-20'')
      \<and> truthy (js_get d ''op'') \<and> truthy (js_get d ''tick''))
   \<and> (strip_push opReturnHex = Some dataHex \<and> P (hex_decode dataHex) = Some v
        \<and> js_get v ''p'' = Some (JStr ''drc-20'')
        \<and> truthy (js_get v ''op'') \<and> truthy (js_get v ''tick'')
      \<longrightarrow> parseDRC20FromHex P opReturnHex = Some v)
   \<and> (strip_push opReturnHex = Some dataHex \<and> P (hex_decode dataHex) = Some v
        \<and> js_get v ''p'' \<noteq> Some (JStr ''drc-20'')
      \<longrightarrow> parseDRC20FromHex P opReturnHex = None)
   \<and> (strip_push opReturnHex = Some dataHex \<and> P (hex_decode dataHex) = None
      \<longrightarrow> parseDRC20FromHex_try P opReturnHex = Inl SyntaxError
          \<and> parseDRC20FromHex P opReturnHex = None)
   \<and> (parseDRC20Json P opReturnHex = Some d \<longrightarrow>
        js_get d ''op'' = Some (JStr ''deploy'') \<or> js_get d ''op'' = Some (JStr ''mint''))"
  by (auto simp add: parseDRC20FromHex_def parseDRC20FromHex_try_def
      parseDRC20Json_def parseDRC20Json_try_def Let_def
      split: option.splits json.splits if_splits)

theorem C3_op_burn_is_accepted_counterexample:
  "parseDRC20FromHex flat_json_parse script_burn = Some data_burn
   \<and> js_get data_burn ''p'' = Some (JStr ''drc-20'')
   \<and> js_get data_burn ''op'' = Some (JStr ''burn'')
   \<and> js_get data_burn ''op''
        \<notin> {Some (JStr ''deploy''), Some (JStr ''mint''), Some (JStr ''transfer'')}
   \<and> parseDRC20Json flat_json_parse script_class_mint = Some data_class_mint
   \<and> js_get data_class_mint ''p'' = Some (JStr ''drc20'')
   \<and> parseDRC20Json flat_json_parse script_mint_DOGE_1000 = None"
  by (simp add: parse_burn parse_class_mint parse_class_protocol_mint)
     (simp add: data_burn_def data_class_mint_def)

theorem C3_decoder_witness:
  "parseDRC20FromHex flat_json_parse script_burn = Some data_burn
   \<and> js_get data_burn ''p'' = Some (JStr ''drc-20'')
   \<and> truthy (js_get data_burn ''op'') \<and> truthy (js_get data_burn ''tick'')
   \<and> parseDRC20FromHex flat_json_parse script_class_mint = None
   \<and> parseDRC20FromHex_try flat_json_parse script_not_json = Inl SyntaxError
   \<and> parseDRC20FromHex flat_json_parse script_not_json = None
   \<and> (js_get data_class_mint ''op'' = Some (JStr ''deploy'')
        \<or> js_get data_class_mint ''op'' = Some (JStr ''mint''))"
proof -
  have burn: "strip_push script_burn = Some (drop 4 script_burn)
      \<and> flat_json_parse (hex_decode (drop 4 script_burn)) = Some data_burn
      \<and> js_get data_burn ''p'' = Some (JStr ''drc-20'')
      \<and> truthy (js_get data_burn ''op'') \<and> truthy (js_get data_burn ''tick'')"
    by (simp add: text_burn) (simp add: data_burn_def)
  have other: "strip_push script_class_mint = Some (drop 4 script_class_mint)
      \<and> flat_json_parse (hex_decode (drop 4 script_class_mint)) = Some data_class_mint
      \<and> js_get data_class_mint ''p'' \<noteq> Some (JStr ''drc-20'')"
    by (simp add: text_class_mint) (simp add: data_class_mint_def)
  have noise: "strip_push script_not_json = Some (drop 4 script_not_json)
      \<and> flat_json_parse (hex_decode (drop 4 script_not_json)) = None"
    by (simp add: text_not_json)
  show ?thesis
    using burn other noise parse_class_mint
      C3_decoder_compares_the_tag_and_lets_any_op_through
        [where P = flat_json_parse and opReturnHex = script_burn
           and dataHex = "drop 4 script_burn" and v = data_burn and d = data_burn]
      C3_decoder_compares_the_tag_and_lets_any_op_through
        [where P = flat_json_parse and opReturnHex = script_class_mint
           and dataHex = "drop 4 script_class_mint" and v = data_class_mint
           and d = data_class_mint]
      C3_decoder_compares_the_tag_and_lets_any_op_through
        [where P = flat_json_parse and opReturnHex = script_not_json
           and dataHex = "drop 4 script_not_json" and v = JNull and d = JNull]
    by blast
qed

text \<open>
  C4. The specification has a script yield a candidate payload only if the payload is
  at most 80 bytes, so that a payload of 81 bytes is no candidate and nothing is written
  for it. The code does not do this: neither decoder looks at the length of the payload.
  \<open>parseDRC20FromHex\<close> returns the operation of \<open>script_deploy_81\<close>, whose payload after
  \<open>6a 4c 51\<close> is 81 bytes, and the scan registers its token; \<open>parseDRC20Json\<close> returns the
  operation of the 81 bytes that follow the first two bytes of \<open>script_class_81\<close>.
\<close>

theorem C4_payload_of_81_bytes_is_accepted:
  "length (hex_decode (drop 6 script_deploy_81)) = 81
   \<and> parseDRC20FromHex flat_json_parse script_deploy_81 = Some data_deploy_81
   \<and> map tok_tick (tokens (fst (scanBlockRange flat_json_parse chain_81 1 1 empty_database)))
       = [''DOGECOINTOKENS'']
   \<and> length (hex_decode (drop 4 script_class_81)) = 81
   \<and> parseDRC20Json flat_json_parse script_class_81 = Some data_class_81"
  by (simp add: length_81 parse_deploy_81 parse_class_81 scan_81)
     (simp add: token_row_def empty_database_def)

text \<open>
  C5. The specification has an operation that decodes as a protocol payload but fails
  validation recorded as an invalid Operation with its rejection reason. The code keeps
  no such record. Whatever \<open>saveTransaction\<close> answers, it leaves the database as it was
  for a mint whose tick \<open>isTokenDeployed\<close> does not find and for an operation that is
  neither a deploy nor a mint; and every row that a scan adds to \<open>transactions\<close> has
  \<open>is_valid = 1\<close>.
\<close>

theorem C5_unapplied_operations_leave_no_record:
  "(js_get d ''op'' = Some (JStr ''mint'') \<and> \<not> isTokenDeployed db (js_get d ''tick'')
      \<longrightarrow> fst (saveTransaction db h t d x) = db)
   \<and> (js_get d ''op'' \<noteq> Some (JStr ''deploy'') \<and> js_get d ''op'' \<noteq> Some (JStr ''mint'')
      \<longrightarrow> fst (saveTransaction db h t d x) = db)
   \<and> (\<forall>r\<in>set (transactions (fst (scanBlockRange P ch a b db))).
        r \<in> set (transactions db) \<or> tx_is_valid r)"
proof (intro conjI ballI impI)
  assume "js_get d ''op'' = Some (JStr ''mint'') \<and> \<not> isTokenDeployed db (js_get d ''tick'')"
  then show "fst (saveTransaction db h t d x) = db"
    by (auto simp add: fst_saveTransaction)
next
  assume "js_get d ''op'' \<noteq> Some (JStr ''deploy'') \<and> js_get d ''op'' \<noteq> Some (JStr ''mint'')"
  then show "fst (saveTransaction db h t d x) = db"
    by (simp add: fst_saveTransaction)
next
  fix r
  assume "r \<in> set (transactions (fst (scanBlockRange P ch a b db)))"
  then show "r \<in> set (transactions db) \<or> tx_is_valid r"
    by (simp add: scanBlockRange_found foldl_apply_found_rows_valid)
qed

theorem C5_unrecorded_mint_counterexample:
  "parseDRC20FromHex flat_json_parse script_mint_DOGE_1000 = Some (data_mint_DOGE ''1000'')
   \<and> scanBlockRange flat_json_parse chain_mint_only 1 1 empty_database
       = (empty_database,
          [\<lparr>f_blockHeight = 1, f_txid = ''m1'', f_data = data_mint_DOGE ''1000'',
            f_hex = script_mint_DOGE_1000\<rparr>])"
  by (simp add: parse_mint_DOGE_1000 scan_mint_only found_def)

theorem C5_unapplied_operations_witness:
  "fst (saveTransaction empty_database 1 ''m1'' (data_mint_DOGE ''1000'') script_mint_DOGE_1000)
     = empty_database
   \<and> fst (saveTransaction empty_database 1 ''m2'' data_mint_bad_tick []) = empty_database
   \<and> fst (saveTransaction empty_database 1 ''x1'' data_transfer_DOGE []) = empty_database
   \<and> list_all tx_is_valid
       (transactions (fst (scanBlockRange flat_json_parse chain_over_limit 1 2 empty_database)))"
proof -
  have m: "js_get (data_mint_DOGE ''1000'') ''op'' = Some (JStr ''mint'')
      \<and> \<not> isTokenDeployed empty_database (js_get (data_mint_DOGE ''1000'') ''tick'')"
    by (simp add: data_mint_DOGE_def isTokenDeployed_iff empty_database_def)
  have o: "js_get data_mint_bad_tick ''op'' = Some (JStr ''mint'')
      \<and> \<not> isTokenDeployed empty_database (js_get data_mint_bad_tick ''tick'')"
    by (simp add: data_mint_bad_tick_def isTokenDeployed_iff)
  have t: "js_get data_transfer_DOGE ''op'' \<noteq> Some (JStr ''deploy'')
      \<and> js_get data_transfer_DOGE ''op'' \<noteq> Some (JStr ''mint'')"
    by (simp add: data_transfer_DOGE_def)
  have e: "set (transactions empty_database) = {}"
    by (simp add: empty_database_def)
  show ?thesis
    using m o t e
      C5_unapplied_operations_leave_no_record
        [where d = "data_mint_DOGE ''1000''" and db = empty_database and h = 1
           and t = "''m1''" and x = script_mint_DOGE_1000 and P = flat_json_parse
           and ch = chain_over_limit and a = 1 and b = 2]
      C5_unapplied_operations_leave_no_record
        [where d = data_mint_bad_tick and db = empty_database and h = 1
           and t = "''m2''" and x = "[]" and P = flat_json_parse
           and ch = chain_over_limit and a = 1 and b = 2]
      C5_unapplied_operations_leave_no_record
        [where d = data_transfer_DOGE and db = empty_database and h = 1
           and t = "''x1''" and x = "[]" and P = flat_json_parse
           and ch = chain_over_limit and a = 1 and b = 2]
    by (simp add: list_all_iff)
qed

text \<open>
  C6. The specification has the declared previous hash of a block compared with the hash
  of the checkpoint before the block is applied, and a mismatch halt the scanner with
  ReorgDetected. The scanner reads neither hash. With a checkpoint at a height \<open>l\<close> other
  than 0 and below the current height \<open>c\<close>, \<open>initialScan\<close> returns the database that
  \<open>scanBlockRange\<close> yields for the heights \<open>l + 1\<close> to \<open>c\<close>, with the checkpoint set to
  \<open>(c, '')\<close>, whatever hash the checkpoint held. For these heights \<open>scanBlockRange\<close> gives
  the same database and the same list on two chains that hold the same transactions at
  every height, whatever their hashes and declared previous hashes; and the database it
  yields is the one that \<open>saveTransaction\<close> leaves when called, in order, on every
  operation of the list it returns. That list is \<open>found_in_range\<close>: for each of the
  heights whose block is fetched, in order, the operations that \<open>parseDRC20FromHex\<close>
  returns for the null-data outputs of the block, up to the first whose log line raises
  an exception, that one included.
\<close>

theorem C6_scan_compares_no_hashes:
  assumes "\<forall>h. map_option tx (ch h) = map_option tx (ch' h)"
    and "l \<noteq> 0" and "l < c"
  shows "initialScan P ch c (db\<lparr>indexer_state := Some (l, x)\<rparr>)
           = (fst (scanBlockRange P ch' (l + 1) c db))\<lparr>indexer_state := Some (c, [])\<rparr>
         \<and> scanBlockRange P ch (l + 1) c db = scanBlockRange P ch' (l + 1) c db
         \<and> fst (scanBlockRange P ch (l + 1) c db)
           = foldl (\<lambda>u f. fst (saveTransaction u (f_blockHeight f) (f_txid f) (f_data f) (f_hex f)))
               db (snd (scanBlockRange P ch (l + 1) c db))
         \<and> snd (scanBlockRange P ch (l + 1) c db) = found_in_range P ch (l + 1) c"
proof -
  have same: "found_in_range P ch (l + 1) c = found_in_range P ch' (l + 1) c"
    using assms(1) by (intro same_txs_found_range) simp
  have fold: "apply_found = (\<lambda>u f. fst (saveTransaction u (f_blockHeight f) (f_txid f) (f_data f) (f_hex f)))"
    by (intro ext) (simp add: apply_found_def)
  have "initialScan P ch c (db\<lparr>indexer_state := Some (l, x)\<rparr>)
           = (fst (scanBlockRange P ch' (l + 1) c db))\<lparr>indexer_state := Some (c, [])\<rparr>"
    using assms(2,3) same
    by (simp add: initialScan_def getLastProcessedBlock_def updateLastProcessedBlock_def
        scanBlockRange_found foldl_apply_found_checkpoint)
  moreover have "scanBlockRange P ch (l + 1) c db = scanBlockRange P ch' (l + 1) c db"
    using same by (simp add: scanBlockRange_found)
  moreover have "fst (scanBlockRange P ch (l + 1) c db)
           = foldl (\<lambda>u f. fst (saveTransaction u (f_blockHeight f) (f_txid f) (f_data f) (f_hex f)))
               db (snd (scanBlockRange P ch (l + 1) c db))"
    by (simp add: scanBlockRange_found fold)
  moreover have "snd (scanBlockRange P ch (l + 1) c db) = found_in_range P ch (l + 1) c"
    by (simp add: scanBlockRange_found)
  ultimately show ?thesis by blast
qed

theorem C6_mismatch_is_committed_counterexample:
  "indexer_state db_checkpoint = Some (100, ''aa'')
   \<and> map_option previousblockhash (chain_fork 101) = Some ''bb''
   \<and> map tok_tick (tokens (initialScan flat_json_parse chain_fork 101 db_checkpoint)) = [''DOGE'']
   \<and> indexer_state (initialScan flat_json_parse chain_fork 101 db_checkpoint) = Some (101, [])"
  by (simp add: scan_fork)
     (simp add: db_checkpoint_def empty_database_def chain_fork_def block_of_def token_row_def)

theorem C6_scan_compares_no_hashes_witness:
  "initialScan flat_json_parse chain_fork 101 db_checkpoint
     = (fst (scanBlockRange flat_json_parse chain_fork' 101 101 empty_database))
         \<lparr>indexer_state := Some (101, [])\<rparr>
   \<and> scanBlockRange flat_json_parse chain_fork 101 101 empty_database
     = scanBlockRange flat_json_parse chain_fork' 101 101 empty_database
   \<and> snd (scanBlockRange flat_json_parse chain_fork 101 101 empty_database)
     = [found 101 ''d1'' data_deploy_DOGE script_deploy_DOGE]
   \<and> fst (scanBlockRange flat_json_parse chain_fork 101 101 empty_database)
     = fst (saveTransaction empty_database 101 ''d1'' data_deploy_DOGE script_deploy_DOGE)
   \<and> map tok_tick (tokens (fst (scanBlockRange flat_json_parse chain_fork' 101 101 empty_database)))
     = [''DOGE'']"
proof -
  have same: "\<forall>h. map_option tx (chain_fork h) = map_option tx (chain_fork' h)"
    by (simp add: chain_fork_def chain_fork'_def block_of_def)
  have heights: "(100::int) \<noteq> 0" "(100::int) < 101"
    by simp_all
  have list: "snd (scanBlockRange flat_json_parse chain_fork 101 101 empty_database)
     = [found 101 ''d1'' data_deploy_DOGE script_deploy_DOGE]"
    by (simp add: scanBlockRange_found found_fork)
  have applied: "map tok_tick (tokens (fst (saveTransaction empty_database 101 ''d1''
                    data_deploy_DOGE script_deploy_DOGE))) = [''DOGE'']"
    by (simp add: eval_defs)
  note main = C6_scan_compares_no_hashes
      [where ch = chain_fork and ch' = chain_fork' and l = 100 and c = 101
         and P = flat_json_parse and db = empty_database and x = "''aa''",
       OF same heights]
  have a: "initialScan flat_json_parse chain_fork 101 db_checkpoint
     = (fst (scanBlockRange flat_json_parse chain_fork' 101 101 empty_database))
         \<lparr>indexer_state := Some (101, [])\<rparr>"
    unfolding db_checkpoint_def using main [THEN conjunct1] by simp
  have b: "scanBlockRange flat_json_parse chain_fork 101 101 empty_database
     = scanBlockRange flat_json_parse chain_fork' 101 101 empty_database"
    using main [THEN conjunct2, THEN conjunct1] by simp
  have c: "fst (scanBlockRange flat_json_parse chain_fork 101 101 empty_database)
     = foldl (\<lambda>u f. fst (saveTransaction u (f_blockHeight f) (f_txid f) (f_data f) (f_hex f)))
         empty_database (snd (scanBlockRange flat_json_parse chain_fork 101 101 empty_database))"
    using main [THEN conjunct2, THEN conjunct2, THEN conjunct1] by simp
  have d: "fst (scanBlockRange flat_json_parse chain_fork 101 101 empty_database)
     = fst (saveTransaction empty_database 101 ''d1'' data_deploy_DOGE script_deploy_DOGE)"
    by (subst c) (simp add: list found_def)
  show ?thesis
    using a b list d applied by simp
qed

text \<open>
  C7. The specification has the decoder fail, for a recognised operation, with
  MalformedPayload (a result of its own beside "not this protocol") whenever \<open>max\<close>,
  \<open>lim\<close> or \<open>amt\<close> is missing or not a valid number. \<open>parseDRC20FromHex\<close> has one
  result, \<open>null\<close>, for everything it does not return, and it returns a parsed value
  exactly when its \<open>p\<close> is \<open>drc-20\<close> and its \<open>op\<close> and \<open>tick\<close> are truthy; \<open>max\<close>, \<open>lim\<close>
  and \<open>amt\<close> are not looked at. \<open>saveTransaction\<close> stores \<open>'0'\<close> in place of a missing one:
  a deploy without \<open>max\<close> and \<open>lim\<close> registers its token, and a mint without \<open>amt\<close> of a
  registered token is recorded as a valid row.
\<close>

theorem C7_decoder_checks_tag_op_and_tick_only:
  "(parseDRC20FromHex P opReturnHex = Some d \<longleftrightarrow>
      (case strip_push opReturnHex of
         None \<Rightarrow> None
       | Some dataHex \<Rightarrow> P (hex_decode dataHex)) = Some d
      \<and> js_get d ''p'' = Some (JStr ''drc-20'')
      \<and> truthy (js_get d ''op'') \<and> truthy (js_get d ''tick''))
   \<and> (js_get d ''op'' = Some (JStr ''deploy'') \<and> js_get d ''tick'' = Some (JStr t)
        \<and> js_get d ''max'' = None \<and> js_get d ''lim'' = None
        \<and> toUpperCase t \<notin> set (map tok_tick (tokens db))
        \<and> tid \<notin> set (map tok_deploy_txid (tokens db))
      \<longrightarrow> tokens (fst (saveTransaction db h tid d x))
          = tokens db @
            [\<lparr>tok_tick = toUpperCase t, tok_name = None, tok_max_supply = ''0'',
              tok_mint_limit = ''0'', tok_deploy_txid = tid, tok_deploy_block = h,
              tok_deploy_address = []\<rparr>])
   \<and> (js_get d ''op'' = Some (JStr ''mint'') \<and> isTokenDeployed db (js_get d ''tick'')
        \<and> js_get d ''amt'' = None
        \<and> tid \<notin> set (map tx_txid (transactions db))
      \<longrightarrow> map (\<lambda>r. (tx_amount r, tx_is_valid r)) (transactions (fst (saveTransaction db h tid d x)))
          = map (\<lambda>r. (tx_amount r, tx_is_valid r)) (transactions db) @ [(Some ''0'', True)])"
proof (intro conjI impI)
  show "parseDRC20FromHex P opReturnHex = Some d \<longleftrightarrow>
      (case strip_push opReturnHex of
         None \<Rightarrow> None
       | Some dataHex \<Rightarrow> P (hex_decode dataHex)) = Some d
      \<and> js_get d ''p'' = Some (JStr ''drc-20'')
      \<and> truthy (js_get d ''op'') \<and> truthy (js_get d ''tick'')"
    by (auto simp add: parseDRC20FromHex_def parseDRC20FromHex_try_def
        split: option.splits json.splits if_splits)
next
  assume "js_get d ''op'' = Some (JStr ''deploy'') \<and> js_get d ''tick'' = Some (JStr t)
        \<and> js_get d ''max'' = None \<and> js_get d ''lim'' = None
        \<and> toUpperCase t \<notin> set (map tok_tick (tokens db))
        \<and> tid \<notin> set (map tok_deploy_txid (tokens db))"
  then show "tokens (fst (saveTransaction db h tid d x))
          = tokens db @
            [\<lparr>tok_tick = toUpperCase t, tok_name = None, tok_max_supply = ''0'',
              tok_mint_limit = ''0'', tok_deploy_txid = tid, tok_deploy_block = h,
              tok_deploy_address = []\<rparr>]"
    by (auto simp add: fst_saveTransaction insert_or_ignore_tokens_def or_zero_def sql_text_def)
next
  assume "js_get d ''op'' = Some (JStr ''mint'') \<and> isTokenDeployed db (js_get d ''tick'')
        \<and> js_get d ''amt'' = None
        \<and> tid \<notin> set (map tx_txid (transactions db))"
  then show "map (\<lambda>r. (tx_amount r, tx_is_valid r)) (transactions (fst (saveTransaction db h tid d x)))
          = map (\<lambda>r. (tx_amount r, tx_is_valid r)) (transactions db) @ [(Some ''0'', True)]"
    by (auto simp add: fst_saveTransaction insert_or_ignore_transactions_def or_zero_def
        sql_text_def isTokenDeployed_iff split: option.splits json.splits)
qed

theorem C7_unvalidated_fields_counterexample:
  "parseDRC20FromHex flat_json_parse script_deploy_bare = Some data_deploy_bare
   \<and> parseDRC20FromHex flat_json_parse script_mint_zero = Some (data_mint_DOGE ''0'')
   \<and> map (\<lambda>r. (tok_tick r, tok_max_supply r, tok_mint_limit r))
       (tokens (fst (scanBlockRange flat_json_parse chain_unvalidated 1 1 empty_database)))
     = [(''DOGE'', ''0'', ''0'')]
   \<and> map (\<lambda>r. (tx_txid r, tx_amount r, tx_is_valid r))
       (transactions (fst (scanBlockRange flat_json_parse chain_unvalidated 1 1 empty_database)))
     = [(''m1'', Some ''0'', True)]"
  by (simp add: parse_deploy_bare parse_mint_zero scan_unvalidated)
     (simp add: token_row_def mint_row_def)

theorem C7_decoder_checks_witness:
  "parseDRC20FromHex flat_json_parse script_deploy_bare = Some data_deploy_bare
   \<and> tokens (fst (saveTransaction empty_database 1 ''d1'' data_deploy_bare script_deploy_bare))
     = [\<lparr>tok_tick = ''DOGE'', tok_name = None, tok_max_supply = ''0'',
         tok_mint_limit = ''0'', tok_deploy_txid = ''d1'', tok_deploy_block = 1,
         tok_deploy_address = []\<rparr>]
   \<and> map (\<lambda>r. (tx_amount r, tx_is_valid r))
       (transactions (fst (saveTransaction db_bare 2 ''m1'' data_mint_bare [])))
     = [(Some ''0'', True)]"
proof -
  have fields: "js_get data_deploy_bare ''p'' = Some (JStr ''drc-20'')
      \<and> truthy (js_get data_deploy_bare ''op'') \<and> truthy (js_get data_deploy_bare ''tick'')"
    by (simp add: data_deploy_bare_def)
  have deploy: "js_get data_deploy_bare ''op'' = Some (JStr ''deploy'')
      \<and> js_get data_deploy_bare ''tick'' = Some (JStr ''DOGE'')
      \<and> js_get data_deploy_bare ''max'' = None \<and> js_get data_deploy_bare ''lim'' = None
      \<and> toUpperCase ''DOGE'' \<notin> set (map tok_tick (tokens empty_database))
      \<and> ''d1'' \<notin> set (map tok_deploy_txid (tokens empty_database))"
    by (simp add: data_deploy_bare_def empty_database_def)
  have mint: "js_get data_mint_bare ''op'' = Some (JStr ''mint'')
      \<and> isTokenDeployed db_bare (js_get data_mint_bare ''tick'')
      \<and> js_get data_mint_bare ''amt'' = None
      \<and> ''m1'' \<notin> set (map tx_txid (transactions db_bare))"
    by (simp add: data_mint_bare_def db_bare_def isTokenDeployed_iff toUpperCase_def
        upper_char_def empty_database_def token_row_def)
  have upper: "toUpperCase ''DOGE'' = ''DOGE''"
    by (simp add: toUpperCase_def upper_char_def)
  have none: "tokens empty_database = []" "transactions db_bare = []"
    by (simp_all add: empty_database_def db_bare_def)
  show ?thesis
    using text_deploy_bare fields deploy mint
      C7_decoder_checks_tag_op_and_tick_only
        [where P = flat_json_parse and opReturnHex = script_deploy_bare
           and d = data_deploy_bare and t = "''DOGE''" and db = empty_database
           and tid = "''d1''" and h = 1 and x = script_deploy_bare]
      C7_decoder_checks_tag_op_and_tick_only
        [where P = flat_json_parse and opReturnHex = script_deploy_bare
           and d = data_mint_bare and t = "''DOGE''" and db = db_bare
           and tid = "''m1''" and h = 2 and x = "[]"]
    by (simp add: upper none)
qed

text \<open>
  C8. The specification has the total minted supply that the ledger computes equal to
  the exact sum of the amounts of the valid mints, at any magnitude. \<open>getTokenStats\<close> adds the
  amounts as 64-bit integers in SQLite and returns the sum as a JavaScript number. The
  total is exact when the valid mint rows of the tick hold the decimal texts of
  non-negative numbers whose sum is below \<open>2 ^ 53\<close>.
\<close>

theorem C8_total_minted_is_exact_below_2_53:
  assumes "map tx_amount (mint_rows db (toUpperCase tick))
             = map (\<lambda>a. Some (show_nat a)) amounts"
    and "\<forall>a\<in>set amounts. 0 \<le> a"
    and "sum_list amounts < 2 ^ 53"
  shows "totalMinted (getTokenStats db tick) = sum_list amounts"
proof -
  have each: "sql_cast_integer (show_nat a) = a" if "a \<in> set amounts" for a
  proof -
    from that assms(2) have a0: "0 \<le> a" by simp
    from that assms(2) have "a \<le> sum_list amounts" by (intro le_sum_list) simp_all
    with assms(3) have "a < 2 ^ 63" by simp
    then show ?thesis
      using show_nat_digits [OF a0] sql_cast_integer_digits [of "show_nat a"]
      by (simp add: dec_value_show_nat [OF a0])
  qed
  then have casts: "map (sql_cast_integer \<circ> show_nat) amounts = amounts"
    by (simp add: map_idI)
  have total0: "0 \<le> sum_list amounts"
    using assms(2) by (intro sum_list_nonneg) simp
  have "sql_sum 0 amounts = Some (0 + sum_list amounts)"
    using assms(2,3) by (intro sql_sum_exact) simp_all
  then have q: "mint_stats_query db (toUpperCase tick) =
      Some \<lparr>totalMinted = js_number (sum_list amounts),
            totalTransactions = js_number (int (length (mint_rows db (toUpperCase tick))))\<rparr>"
    by (simp add: mint_stats_query_def Let_def amounts_of_rows [OF assms(1)] casts)
  have "js_number (sum_list amounts) = sum_list amounts"
    using total0 assms(3) by (intro js_number_exact) simp
  with q show ?thesis
    by (simp add: getTokenStats_def)
qed

theorem C8_total_minted_rounded_counterexample:
  "map tx_amount (mint_rows db_large_mint ''DOGE'') = [Some ''9007199254740993'']
   \<and> totalMinted (getTokenStats db_large_mint ''DOGE'') = 9007199254740992"
  by (simp add: large_mint_rows) (simp add: large_db large_mint_stats)

theorem C8_total_minted_witness:
  "map tx_amount
     (mint_rows (fst (scanBlockRange flat_json_parse chain_over_limit 1 2 empty_database))
        ''DOGE'')
     = [Some ''1000'', Some ''1000'', Some ''1500'']
   \<and> totalMinted
       (getTokenStats (fst (scanBlockRange flat_json_parse chain_over_limit 1 2 empty_database))
          ''doge'') = 3500"
proof -
  note upper = upper_doge
  have rows: "map tx_amount
     (mint_rows (fst (scanBlockRange flat_json_parse chain_over_limit 1 2 empty_database))
        ''DOGE'')
     = [Some ''1000'', Some ''1000'', Some ''1500'']"
    by (simp add: scan_over_limit) (simp add: mint_rows_def mint_row_def empty_database_def)
  then have "map tx_amount
     (mint_rows (fst (scanBlockRange flat_json_parse chain_over_limit 1 2 empty_database))
        (toUpperCase ''doge''))
     = map (\<lambda>a. Some (show_nat a)) [1000, 1000, 1500]"
    by (simp add: upper show_samples)
  moreover have "\<forall>a\<in>set [1000, 1000, 1500 :: int]. 0 \<le> a"
    by simp
  moreover have "sum_list [1000, 1000, 1500 :: int] < 2 ^ 53"
    by simp
  ultimately have "totalMinted
       (getTokenStats (fst (scanBlockRange flat_json_parse chain_over_limit 1 2 empty_database))
          ''doge'') = sum_list [1000, 1000, 1500]"
    by (rule C8_total_minted_is_exact_below_2_53)
  with rows show ?thesis by simp
qed



end
